theory Spec2Isabelle
  imports Complex_Main "HOL-Library.Sublist" "HOL-Library.AList"
begin

section \<open>Values, documents and the database\<close>

text \<open>
  The API of \<^verbatim>\<open>main.py\<close> keeps JSON-like documents in named collections of a
  document store. A stored field holds a value of one of the Python types the schemas
  of \<^verbatim>\<open>schemas.py\<close> declare. A \<^verbatim>\<open>float\<close> is modelled as a real number (no claim
  below computes with prices), a \<^verbatim>\<open>datetime\<close> as a point on an integer time line.
  A Python string is the list of its characters, and a character is its code point; the
  characters of this model are those with a code point below 256, the Latin-1 range of
  Unicode, so that text with any other character cannot be written here.
\<close>

datatype datetime = Datetime int

datatype val =
    VNone
  | VBool bool
  | VInt int
  | VFloat real
  | VStr string
  | VList "val list"
  | VDatetime datetime

type_synonym fields = "(string \<times> val) list"

text \<open>
  A stored document: the identifier the store assigned (\<^verbatim>\<open>_id\<close>, an ObjectId) and
  the fields that were inserted.
\<close>

record document =
  oid :: nat
  body :: fields

text \<open>
  The database behind the handle \<^verbatim>\<open>db\<close>: its name, its collections in the order of
  their creation (a collection exists once a document was inserted into it), and the
  counter the next identifier is taken from.
\<close>

record database =
  name :: string
  colls :: "(string \<times> document list) list"
  next_oid :: nat

definition coll :: "database \<Rightarrow> string \<Rightarrow> document list" where
  "coll d c = (case map_of (colls d) c of None \<Rightarrow> [] | Some ds \<Rightarrow> ds)"

text \<open>Exceptions, and \<^verbatim>\<open>str(e)\<close>.\<close>

datatype exn = TypeError | StorageError string

fun str :: "exn \<Rightarrow> string" where
  "str TypeError = CHR 0x27 # ''NoneType' object is not subscriptable''"
| "str (StorageError m) = m"

text \<open>
  What the store does on one operation is an input of the model: \<open>None\<close> when the
  operation goes through, \<open>Some m\<close> when the store raises an error with message \<open>m\<close>
  (unreachable, write rejected, query failure).
\<close>

type_synonym fault = "string option"

text \<open>
  What lies outside the repository and is used by it: the e-mail syntax check behind
  \<^verbatim>\<open>EmailStr\<close> (it returns the normalised address, or \<open>None\<close> for a malformed one), the
  store's regular-expression engine on the patterns that are not evaluated below, and
  the message of the error raised when the handle \<^verbatim>\<open>db\<close> is absent.
\<close>

record env =
  email_validator :: "string \<Rightarrow> string option"
  regex_engine :: "string \<Rightarrow> string \<Rightarrow> string \<Rightarrow> exn + bool"
  unavailable :: string

section \<open>Schemas\<close>

text \<open>The models of \<^verbatim>\<open>schemas.py\<close> that an endpoint uses, field by field.\<close>

record Product =
  title :: string
  description :: "string option"
  price :: real
  category :: string
  subcategory :: "string option"
  image :: "string option"
  in_stock :: bool

record Review =
  name :: string
  rating :: int
  comment :: string
  source :: "string option"

record Consultation =
  full_name :: string
  email :: string
  phone :: "string option"
  mode :: string
  preferred_date :: "string option"
  message :: "string option"
  service :: string

record ContactMessage =
  full_name :: string
  email :: string
  topic :: string
  message :: string
  channel :: "string option"

record BlogPost =
  title :: string
  slug :: string
  category :: string
  excerpt :: string
  content :: string
  cover_image :: "string option"
  tags :: "string list option"
  published_at :: "datetime option"

datatype entity =
    EProduct Product
  | EReview Review
  | EConsultation Consultation
  | EContactMessage ContactMessage
  | EBlogPost BlogPost

subsection \<open>Request bodies\<close>

text \<open>
  A request body gives each declared field no value, the JSON value \<^verbatim>\<open>null\<close>, or a
  value of the declared type. Bodies that carry a value of another JSON type in a field
  are not part of this model.
\<close>

datatype 'a field = Missing | Null | Given 'a

record Product_in =
  title :: "string field"
  description :: "string field"
  price :: "real field"
  category :: "string field"
  subcategory :: "string field"
  image :: "string field"
  in_stock :: "bool field"

record Review_in =
  name :: "string field"
  rating :: "int field"
  comment :: "string field"
  source :: "string field"

record Consultation_in =
  full_name :: "string field"
  email :: "string field"
  phone :: "string field"
  mode :: "string field"
  preferred_date :: "string field"
  message :: "string field"
  service :: "string field"

record ContactMessage_in =
  full_name :: "string field"
  email :: "string field"
  topic :: "string field"
  message :: "string field"
  channel :: "string field"

record BlogPost_in =
  title :: "string field"
  slug :: "string field"
  category :: "string field"
  excerpt :: "string field"
  content :: "string field"
  cover_image :: "string field"
  tags :: "string list field"
  published_at :: "datetime field"

subsection \<open>Validation\<close>

text \<open>
  Validation of a body against a model checks every declared field and reports all the
  fields that fail, each with the constraint it violates; the record is built only when
  no field fails.
\<close>

datatype violation =
    FieldRequired
  | NoneNotAllowed
  | GreaterThanEqual
  | LessThanEqual
  | InvalidEmail

type_synonym verror = "string \<times> violation"

type_synonym 'a checked = "verror list + 'a"

text \<open>A field declared without a default (\<^verbatim>\<open>x: T\<close>, \<^verbatim>\<open>Field(...)\<close>).\<close>

definition required :: "string \<Rightarrow> 'a field \<Rightarrow> 'a checked" where
  "required k f =
     (case f of
        Missing \<Rightarrow> Inl [(k, FieldRequired)]
      | Null \<Rightarrow> Inl [(k, NoneNotAllowed)]
      | Given v \<Rightarrow> Inr v)"

text \<open>A field \<^verbatim>\<open>x: Optional[T] = d\<close>.\<close>

definition optional :: "'a option \<Rightarrow> 'a field \<Rightarrow> 'a option checked" where
  "optional d f =
     (case f of
        Missing \<Rightarrow> Inr d
      | Null \<Rightarrow> Inr None
      | Given v \<Rightarrow> Inr (Some v))"

text \<open>A field \<^verbatim>\<open>x: T = d\<close>.\<close>

definition defaulted :: "string \<Rightarrow> 'a \<Rightarrow> 'a field \<Rightarrow> 'a checked" where
  "defaulted k d f =
     (case f of
        Missing \<Rightarrow> Inr d
      | Null \<Rightarrow> Inl [(k, NoneNotAllowed)]
      | Given v \<Rightarrow> Inr v)"

text \<open>The constraints \<^verbatim>\<open>ge\<close> and \<^verbatim>\<open>le\<close> of \<^verbatim>\<open>Field\<close>, and \<^verbatim>\<open>EmailStr\<close>.\<close>

definition ge :: "string \<Rightarrow> 'a::linorder \<Rightarrow> 'a checked \<Rightarrow> 'a checked" where
  "ge k lo c =
     (case c of
        Inl es \<Rightarrow> Inl es
      | Inr v \<Rightarrow> if lo \<le> v then Inr v else Inl [(k, GreaterThanEqual)])"

definition le :: "string \<Rightarrow> 'a::linorder \<Rightarrow> 'a checked \<Rightarrow> 'a checked" where
  "le k hi c =
     (case c of
        Inl es \<Rightarrow> Inl es
      | Inr v \<Rightarrow> if v \<le> hi then Inr v else Inl [(k, LessThanEqual)])"

definition EmailStr :: "env \<Rightarrow> string \<Rightarrow> string checked \<Rightarrow> string checked" where
  "EmailStr E k c =
     (case c of
        Inl es \<Rightarrow> Inl es
      | Inr v \<Rightarrow>
          (case email_validator E v of
             None \<Rightarrow> Inl [(k, InvalidEmail)]
           | Some v' \<Rightarrow> Inr v'))"

text \<open>One more field for a record under construction; the errors of all fields add up.\<close>

fun ap :: "('a \<Rightarrow> 'b) checked \<Rightarrow> 'a checked \<Rightarrow> 'b checked" where
  "ap (Inr f) (Inr x) = Inr (f x)"
| "ap (Inr f) (Inl es) = Inl es"
| "ap (Inl es) (Inr x) = Inl es"
| "ap (Inl es) (Inl es') = Inl (es @ es')"

definition validate_Product :: "Product_in \<Rightarrow> Product checked" where
  "validate_Product p =
     ap (ap (ap (ap (ap (ap (ap
       (Inr (\<lambda>t d pr c s i st.
          \<lparr>Product.title = t, description = d, price = pr, category = c,
           subcategory = s, image = i, in_stock = st\<rparr>))
       (required ''title'' (Product_in.title p)))
       (optional None (Product_in.description p)))
       (ge ''price'' 0 (required ''price'' (Product_in.price p))))
       (required ''category'' (Product_in.category p)))
       (optional None (Product_in.subcategory p)))
       (optional None (Product_in.image p)))
       (defaulted ''in_stock'' True (Product_in.in_stock p))"

definition validate_Review :: "Review_in \<Rightarrow> Review checked" where
  "validate_Review p =
     ap (ap (ap (ap
       (Inr (\<lambda>n r c s. \<lparr>Review.name = n, rating = r, comment = c, source = s\<rparr>))
       (required ''name'' (Review_in.name p)))
       (le ''rating'' 5 (ge ''rating'' 1 (required ''rating'' (Review_in.rating p)))))
       (required ''comment'' (Review_in.comment p)))
       (optional (Some ''website'') (Review_in.source p))"

definition validate_Consultation :: "env \<Rightarrow> Consultation_in \<Rightarrow> Consultation checked" where
  "validate_Consultation E p =
     ap (ap (ap (ap (ap (ap (ap
       (Inr (\<lambda>n e ph m d msg s.
          \<lparr>Consultation.full_name = n, email = e, phone = ph, mode = m,
           preferred_date = d, message = msg, service = s\<rparr>))
       (required ''full_name'' (Consultation_in.full_name p)))
       (EmailStr E ''email'' (required ''email'' (Consultation_in.email p))))
       (optional None (Consultation_in.phone p)))
       (required ''mode'' (Consultation_in.mode p)))
       (optional None (Consultation_in.preferred_date p)))
       (optional None (Consultation_in.message p)))
       (defaulted ''service'' ''ayurvedic'' (Consultation_in.service p))"

definition validate_ContactMessage ::
  "env \<Rightarrow> ContactMessage_in \<Rightarrow> ContactMessage checked" where
  "validate_ContactMessage E p =
     ap (ap (ap (ap (ap
       (Inr (\<lambda>n e t msg ch.
          \<lparr>ContactMessage.full_name = n, email = e, topic = t, message = msg,
           channel = ch\<rparr>))
       (required ''full_name'' (ContactMessage_in.full_name p)))
       (EmailStr E ''email'' (required ''email'' (ContactMessage_in.email p))))
       (required ''topic'' (ContactMessage_in.topic p)))
       (required ''message'' (ContactMessage_in.message p)))
       (optional (Some ''general'') (ContactMessage_in.channel p))"

definition validate_BlogPost :: "BlogPost_in \<Rightarrow> BlogPost checked" where
  "validate_BlogPost p =
     ap (ap (ap (ap (ap (ap (ap (ap
       (Inr (\<lambda>t s c e co ci tg pa.
          \<lparr>BlogPost.title = t, slug = s, category = c, excerpt = e, content = co,
           cover_image = ci, tags = tg, published_at = pa\<rparr>))
       (required ''title'' (BlogPost_in.title p)))
       (required ''slug'' (BlogPost_in.slug p)))
       (required ''category'' (BlogPost_in.category p)))
       (required ''excerpt'' (BlogPost_in.excerpt p)))
       (required ''content'' (BlogPost_in.content p)))
       (optional None (BlogPost_in.cover_image p)))
       (optional None (BlogPost_in.tags p)))
       (optional None (BlogPost_in.published_at p))"

section \<open>The document access layer\<close>

subsection \<open>Dumping a model\<close>

definition opt_str :: "string option \<Rightarrow> val" where
  "opt_str x = (case x of None \<Rightarrow> VNone | Some s \<Rightarrow> VStr s)"

definition opt_tags :: "string list option \<Rightarrow> val" where
  "opt_tags x = (case x of None \<Rightarrow> VNone | Some ts \<Rightarrow> VList (map VStr ts))"

definition opt_datetime :: "datetime option \<Rightarrow> val" where
  "opt_datetime x = (case x of None \<Rightarrow> VNone | Some t \<Rightarrow> VDatetime t)"

text \<open>The field set of a validated record, in the order of declaration.\<close>

fun model_dump :: "entity \<Rightarrow> fields" where
  "model_dump (EProduct p) =
     [(''title'', VStr (Product.title p)),
      (''description'', opt_str (Product.description p)),
      (''price'', VFloat (Product.price p)),
      (''category'', VStr (Product.category p)),
      (''subcategory'', opt_str (Product.subcategory p)),
      (''image'', opt_str (Product.image p)),
      (''in_stock'', VBool (Product.in_stock p))]"
| "model_dump (EReview r) =
     [(''name'', VStr (Review.name r)),
      (''rating'', VInt (Review.rating r)),
      (''comment'', VStr (Review.comment r)),
      (''source'', opt_str (Review.source r))]"
| "model_dump (EConsultation c) =
     [(''full_name'', VStr (Consultation.full_name c)),
      (''email'', VStr (Consultation.email c)),
      (''phone'', opt_str (Consultation.phone c)),
      (''mode'', VStr (Consultation.mode c)),
      (''preferred_date'', opt_str (Consultation.preferred_date c)),
      (''message'', opt_str (Consultation.message c)),
      (''service'', VStr (Consultation.service c))]"
| "model_dump (EContactMessage m) =
     [(''full_name'', VStr (ContactMessage.full_name m)),
      (''email'', VStr (ContactMessage.email m)),
      (''topic'', VStr (ContactMessage.topic m)),
      (''message'', VStr (ContactMessage.message m)),
      (''channel'', opt_str (ContactMessage.channel m))]"
| "model_dump (EBlogPost b) =
     [(''title'', VStr (BlogPost.title b)),
      (''slug'', VStr (BlogPost.slug b)),
      (''category'', VStr (BlogPost.category b)),
      (''excerpt'', VStr (BlogPost.excerpt b)),
      (''content'', VStr (BlogPost.content b)),
      (''cover_image'', opt_str (BlogPost.cover_image b)),
      (''tags'', opt_tags (BlogPost.tags b)),
      (''published_at'', opt_datetime (BlogPost.published_at b))]"

subsection \<open>Text search\<close>

text \<open>
  The filter of \<^verbatim>\<open>list_products\<close> hands the query string to the store as a regular
  expression with the option \<^verbatim>\<open>i\<close>. The patterns evaluated here are those built from
  ordinary characters and the dot: an ordinary character stands for itself in either
  case, the dot for any character but the newline, and the pattern is searched anywhere
  in the text. A pattern with another special character, or other options, is left to
  \<open>regex_engine\<close>.
\<close>

text \<open>
  Letter case is that of Unicode's simple case folding: among the code points below 256
  the capital letters are \<^verbatim>\<open>A\<close> to \<^verbatim>\<open>Z\<close> (65 to 90) and the accented capitals
  at 192 to 214 and 216 to 222, each with its small letter 32 places above; no other two
  characters of the range differ in case only (215 and 247 are the signs of
  multiplication and division).
\<close>

definition lower :: "char \<Rightarrow> char" where
  "lower c =
     (let n = (of_char c :: nat)
      in if (65 \<le> n \<and> n \<le> 90) \<or> (192 \<le> n \<and> n \<le> 214) \<or> (216 \<le> n \<and> n \<le> 222)
         then char_of (n + 32) else c)"

definition special :: "char list" where
  "special =
     [CHR 0x5C, CHR 0x5E, CHR 0x24, CHR 0x7C, CHR 0x3F, CHR 0x2A, CHR 0x2B,
      CHR 0x28, CHR 0x29, CHR 0x5B, CHR 0x5D, CHR 0x7B, CHR 0x7D]"

definition dot :: char where
  "dot = CHR 0x2E"

definition newline :: char where
  "newline = CHR 0x0A"

definition evaluated :: "string \<Rightarrow> string \<Rightarrow> bool" where
  "evaluated p opts = (opts = ''i'' \<and> list_all (\<lambda>c. \<not> List.member special c) p)"

definition char_matches :: "char \<Rightarrow> char \<Rightarrow> bool" where
  "char_matches c x = (if c = dot then x \<noteq> newline else lower c = lower x)"

fun match_here :: "string \<Rightarrow> string \<Rightarrow> bool" where
  "match_here [] s = True"
| "match_here (c # p) [] = False"
| "match_here (c # p) (x # s) = (char_matches c x \<and> match_here p s)"

fun search :: "string \<Rightarrow> string \<Rightarrow> bool" where
  "search p [] = match_here p []"
| "search p (x # s) = (match_here p (x # s) \<or> search p s)"

definition regex_match :: "env \<Rightarrow> string \<Rightarrow> string \<Rightarrow> string \<Rightarrow> exn + bool" where
  "regex_match E p opts s =
     (if evaluated p opts then Inr (search p s) else regex_engine E p opts s)"

subsection \<open>Filters\<close>

text \<open>
  A filter is the dictionary \<^verbatim>\<open>filt\<close>: under a field name a value to equal or a
  \<^verbatim>\<open>{"$regex": p, "$options": o}\<close>, under \<^verbatim>\<open>$or\<close> a list of such dictionaries. All
  entries of a dictionary must hold; of the alternatives of \<^verbatim>\<open>$or\<close>, one.
\<close>

datatype operand = Eq val | Regex string string

type_synonym field_filter = "(string \<times> operand) list"

datatype criterion = Field string operand | Or "field_filter list"

type_synonym filter = "criterion list"

fun all_m :: "('a \<Rightarrow> exn + bool) \<Rightarrow> 'a list \<Rightarrow> exn + bool" where
  "all_m f [] = Inr True"
| "all_m f (x # xs) =
     (case f x of
        Inl e \<Rightarrow> Inl e
      | Inr b \<Rightarrow> if b then all_m f xs else Inr False)"

fun any_m :: "('a \<Rightarrow> exn + bool) \<Rightarrow> 'a list \<Rightarrow> exn + bool" where
  "any_m f [] = Inr False"
| "any_m f (x # xs) =
     (case f x of
        Inl e \<Rightarrow> Inl e
      | Inr b \<Rightarrow> if b then Inr True else any_m f xs)"

fun filter_m :: "('a \<Rightarrow> exn + bool) \<Rightarrow> 'a list \<Rightarrow> exn + 'a list" where
  "filter_m f [] = Inr []"
| "filter_m f (x # xs) =
     (case f x of
        Inl e \<Rightarrow> Inl e
      | Inr b \<Rightarrow>
          (case filter_m f xs of
             Inl e \<Rightarrow> Inl e
           | Inr ys \<Rightarrow> Inr (if b then x # ys else ys)))"

definition field_holds :: "env \<Rightarrow> document \<Rightarrow> string \<times> operand \<Rightarrow> exn + bool" where
  "field_holds E d kc =
     (case snd kc of
        Eq v \<Rightarrow> Inr (map_of (body d) (fst kc) = Some v)
      | Regex p opts \<Rightarrow>
          (case map_of (body d) (fst kc) of
             Some (VStr s) \<Rightarrow> regex_match E p opts s
           | _ \<Rightarrow> Inr False))"

definition criterion_holds :: "env \<Rightarrow> document \<Rightarrow> criterion \<Rightarrow> exn + bool" where
  "criterion_holds E d c =
     (case c of
        Field k x \<Rightarrow> field_holds E d (k, x)
      | Or alts \<Rightarrow> any_m (all_m (field_holds E d)) alts)"

definition matches :: "env \<Rightarrow> filter \<Rightarrow> document \<Rightarrow> exn + bool" where
  "matches E filt d = all_m (criterion_holds E d) filt"

subsection \<open>Create, query, count\<close>

text \<open>The 24 hexadecimal digits by which an identifier is rendered as a string.\<close>

fun hex_digits :: "nat \<Rightarrow> nat \<Rightarrow> string" where
  "hex_digits 0 n = []"
| "hex_digits (Suc k) n = hex_digits k (n div 16) @ [''0123456789abcdef'' ! (n mod 16)]"

definition str_oid :: "nat \<Rightarrow> string" where
  "str_oid n = hex_digits 24 n"

definition insert_one :: "database \<Rightarrow> string \<Rightarrow> fields \<Rightarrow> database" where
  "insert_one d c flds =
     d\<lparr>colls := AList.update c (coll d c @ [\<lparr>oid = next_oid d, body = flds\<rparr>]) (colls d),
       next_oid := Suc (next_oid d)\<rparr>"

text \<open>
  Modelled from the spec: \<^verbatim>\<open>create_document\<close> of \<^verbatim>\<open>database.py\<close>, which is not among
  the sources. It ``inserts the record's field set (as deserialized from validation)
  into the named collection; returns a newly assigned unique identifier. Fails with
  StorageError if the underlying store is unreachable or rejects the write.''
\<close>

definition create_document ::
  "env \<Rightarrow> fault \<Rightarrow> database option \<Rightarrow> string \<Rightarrow> entity \<Rightarrow> (exn + string) \<times> database option"
where
  "create_document E f db c e =
     (case db of
        None \<Rightarrow> (Inl (StorageError (unavailable E)), None)
      | Some d \<Rightarrow>
          (case f of
             Some m \<Rightarrow> (Inl (StorageError m), Some d)
           | None \<Rightarrow> (Inr (str_oid (next_oid d)), Some (insert_one d c (model_dump e)))))"

text \<open>
  Modelled from the spec: \<^verbatim>\<open>get_documents\<close> of \<^verbatim>\<open>database.py\<close>, which is not among the
  sources. It ``returns a sequence of records matching filter [...]; results capped at
  limit when supplied [...]. Fails with StorageError on connectivity failure.'' The
  documents come in the order of their insertion.
\<close>

definition cap :: "int option \<Rightarrow> 'a list \<Rightarrow> 'a list" where
  "cap limit xs = (case limit of None \<Rightarrow> xs | Some n \<Rightarrow> take (nat n) xs)"

definition get_documents ::
  "env \<Rightarrow> fault \<Rightarrow> database option \<Rightarrow> string \<Rightarrow> filter \<Rightarrow> int option \<Rightarrow> exn + document list"
where
  "get_documents E f db c filt limit =
     (case db of
        None \<Rightarrow> Inl (StorageError (unavailable E))
      | Some d \<Rightarrow>
          (case f of
             Some m \<Rightarrow> Inl (StorageError m)
           | None \<Rightarrow>
               (case filter_m (matches E filt) (coll d c) of
                  Inl e \<Rightarrow> Inl e
                | Inr ds \<Rightarrow> Inr (cap limit ds))))"

text \<open>
  \<^verbatim>\<open>db[c].count_documents({})\<close>: subscripting an absent handle raises a
  \<^verbatim>\<open>TypeError\<close>; otherwise the store counts the documents of the collection.
\<close>

definition count_documents :: "fault \<Rightarrow> database option \<Rightarrow> string \<Rightarrow> exn + nat" where
  "count_documents f db c =
     (case db of
        None \<Rightarrow> Inl TypeError
      | Some d \<Rightarrow>
          (case f of
             Some m \<Rightarrow> Inl (StorageError m)
           | None \<Rightarrow> Inr (length (coll d c))))"

text \<open>\<^verbatim>\<open>db.list_collection_names()\<close>.\<close>

definition list_collection_names :: "fault \<Rightarrow> database \<Rightarrow> exn + string list" where
  "list_collection_names f d =
     (case f of
        Some m \<Rightarrow> Inl (StorageError m)
      | None \<Rightarrow> Inr (map fst (colls d)))"

section \<open>The application\<close>

subsection \<open>Static data\<close>

definition AYURVEDIC_SUBCATEGORIES :: "string list" where
  "AYURVEDIC_SUBCATEGORIES =
     [''Cosmetics'', ''Oils'', ''Balms'', ''Arishta & Asava'', ''Kwatha & Kashaya'',
      ''Powders'', ''Capsules & Tablets'']"

definition DISEASE_SUBCATEGORIES :: "string list" where
  "DISEASE_SUBCATEGORIES =
     [''Joint & Muscle Pain'', ''Digestive Disorders'', ''Respiratory Health'',
      ''Skin Conditions'', ''Women'' @ CHR 0x27 # ''s Health'', ''Stress & Sleep'',
      ''Diabetes Support'', ''Immunity Boosters'', ''Hair & Scalp Problems'']"

definition TRADITIONAL_SUBCATEGORIES :: "string list" where
  "TRADITIONAL_SUBCATEGORIES =
     [''Puja Items'', ''Pottery Items'', ''Thovil Badu'', ''Gift Packs/Herbal Kits'']"

definition PRODUCT_CATEGORIES :: "(string \<times> string list) list" where
  "PRODUCT_CATEGORIES =
     [(''Ayurvedic Products'', AYURVEDIC_SUBCATEGORIES),
      (''Disease-Related Products'', DISEASE_SUBCATEGORIES),
      (''Traditional Products'', TRADITIONAL_SUBCATEGORIES)]"

definition BLOG_CATEGORIES :: "string list" where
  "BLOG_CATEGORIES =
     [''Herbal Wisdom'', ''Healing Through Ayurveda'', ''Power of Nature'',
      ''Ayurveda for Daily Life'']"

text \<open>\<^verbatim>\<open>SERVICES_INFO\<close>: under each key the title and the items.\<close>

definition SERVICES_INFO :: "(string \<times> string \<times> string list) list" where
  "SERVICES_INFO =
     [(''ayurvedic'', ''Ayurvedic Consultations'',
         [''Doctor consultations (in-person/online)'',
          ''Prescription-based product supply'']),
      (''nakshatra'', ''Nakshatra Services'',
         [''Personal horoscope reading'', ''Wedding/event calculations'',
          ''Healing rituals'', ''Newborn name selection'',
          ''Auspicious time calculation'', ''Customized ritual items''])]"

subsection \<open>Responses\<close>

text \<open>
  The texts of the diagnostics of \<^verbatim>\<open>/test\<close> begin with pictographs; each is named by a
  constructor here, \<open>Text\<close> being a plain string.
\<close>

datatype status =
    Running
  | NotAvailable
  | NotSet
  | IsSet
  | Available
  | ConnectedWorking
  | ConnectedButError string
  | Error string
  | Text string

record diagnostics =
  backend :: status
  database :: status
  database_url :: status
  database_name :: status
  connection_status :: string
  collections :: "string list"

text \<open>
  What a request is answered with: the value a handler returns, the
  \<^verbatim>\<open>HTTPException\<close> it raises, the rejection of a body that fails validation (the
  handler is not called then), or the answer to an exception no handler caught.
\<close>

datatype response =
    Message string
  | Diagnostics diagnostics
  | Categories "(string \<times> string list) list"
  | Services "(string \<times> string \<times> string list) list"
  | Items "fields list"
  | Created string
  | Received string
  | HTTPException nat string
  | RequestValidationError "verror list"
  | InternalServerError

subsection \<open>Seeding\<close>

definition samples :: "Product list" where
  "samples =
     [\<lparr>Product.title = ''Neem Herbal Oil'',
       description = Some ''Cold-pressed neem oil for skin and scalp.'',
       price = 12.99, category = ''Ayurvedic Products'', subcategory = Some ''Oils'',
       image = None, in_stock = True\<rparr>,
      \<lparr>Product.title = ''Ashwagandha Capsules'',
       description = Some ''Stress relief and vitality support.'',
       price = 18.5, category = ''Ayurvedic Products'',
       subcategory = Some ''Capsules & Tablets'', image = None, in_stock = True\<rparr>,
      \<lparr>Product.title = ''DigestEase Arishta'',
       description = Some ''Supports digestive comfort.'',
       price = 14.0, category = ''Ayurvedic Products'',
       subcategory = Some ''Arishta & Asava'', image = None, in_stock = True\<rparr>,
      \<lparr>Product.title = ''Copper Puja Kalash'',
       description = Some ''Traditional copper pot for rituals.'',
       price = 24.0, category = ''Traditional Products'',
       subcategory = Some ''Puja Items'', image = None, in_stock = True\<rparr>,
      \<lparr>Product.title = ''Joint Relief Balm'',
       description = Some ''Warming balm for joints and muscles.'',
       price = 7.5, category = ''Disease-Related Products'',
       subcategory = Some ''Joint & Muscle Pain'', image = None, in_stock = True\<rparr>]"

definition sample_reviews :: "Review list" where
  "sample_reviews =
     [\<lparr>Review.name = ''Anika'', rating = 5,
       comment = ''Amazing quality and very helpful staff!'', source = Some ''website''\<rparr>,
      \<lparr>Review.name = ''Ravi'', rating = 4,
       comment = ''Consultation was insightful and products worked well.'',
       source = Some ''website''\<rparr>]"

definition sample_posts :: "BlogPost list" where
  "sample_posts =
     [\<lparr>BlogPost.title = ''Herbal Wisdom: Neem'', slug = ''herbal-wisdom-neem'',
       category = ''Herbal Wisdom'',
       excerpt = ''Discover the multifaceted benefits of Neem.'',
       content = ''Long form content about Neem...'',
       cover_image = None, tags = None, published_at = None\<rparr>,
      \<lparr>BlogPost.title = ''Healing Through Ayurveda: Digestive Balance'',
       slug = ''healing-ayurveda-digestive'', category = ''Healing Through Ayurveda'',
       excerpt = ''Rekindle your digestive fire.'',
       content = ''Content on Agni and digestion...'',
       cover_image = None, tags = None, published_at = None\<rparr>,
      \<lparr>BlogPost.title = ''Power of Nature: Ashwagandha'',
       slug = ''power-of-nature-ashwagandha'', category = ''Power of Nature'',
       excerpt = ''Ashwagandha for stress relief.'',
       content = ''Content about adaptogens...'',
       cover_image = None, tags = None, published_at = None\<rparr>,
      \<lparr>BlogPost.title = ''Ayurveda for Daily Life: Morning Rituals'',
       slug = ''ayurveda-daily-life-morning'', category = ''Ayurveda for Daily Life'',
       excerpt = ''Simple practices to start your day.'',
       content = ''Dinacharya overview...'',
       cover_image = None, tags = None, published_at = None\<rparr>]"

text \<open>
  The seeding routine performs up to fourteen store operations. The list of faults says
  what the store does on each of them in turn; past its end the store works.
\<close>

definition next_fault :: "fault list \<Rightarrow> fault" where
  "next_fault fs = (case fs of [] \<Rightarrow> None | f # _ \<Rightarrow> f)"

definition rest :: "fault list \<Rightarrow> fault list" where
  "rest fs = (case fs of [] \<Rightarrow> [] | _ # fs' \<Rightarrow> fs')"

text \<open>
  \<^verbatim>\<open>for p in samples: create_document(c, p)\<close>: the loop ends at the first exception,
  which is returned with the database as the inserts before it left it.
\<close>

fun create_all ::
  "env \<Rightarrow> string \<Rightarrow> entity list \<Rightarrow> fault list \<Rightarrow> database option
     \<Rightarrow> exn option \<times> fault list \<times> database option"
where
  "create_all E c [] fs db = (None, fs, db)"
| "create_all E c (e # es) fs db =
     (case create_document E (next_fault fs) db c e of
        (Inl x, db') \<Rightarrow> (Some x, rest fs, db')
      | (Inr i, db') \<Rightarrow> create_all E c es (rest fs) db')"

text \<open>\<^verbatim>\<open>if db[c].count_documents({}) == 0: ...\<close>\<close>

definition seed_if_empty ::
  "env \<Rightarrow> string \<Rightarrow> entity list \<Rightarrow> fault list \<Rightarrow> database option
     \<Rightarrow> exn option \<times> fault list \<times> database option"
where
  "seed_if_empty E c es fs db =
     (case count_documents (next_fault fs) db c of
        Inl x \<Rightarrow> (Some x, rest fs, db)
      | Inr n \<Rightarrow> if n = 0 then create_all E c es (rest fs) db else (None, rest fs, db))"

text \<open>The body of the \<^verbatim>\<open>try\<close> of \<^verbatim>\<open>ensure_seed_data\<close>.\<close>

definition seed_body ::
  "env \<Rightarrow> fault list \<Rightarrow> database option \<Rightarrow> exn option \<times> fault list \<times> database option"
where
  "seed_body E fs db =
     (case seed_if_empty E ''product'' (map EProduct samples) fs db of
        (Some x, fs1, db1) \<Rightarrow> (Some x, fs1, db1)
      | (None, fs1, db1) \<Rightarrow>
          (case seed_if_empty E ''review'' (map EReview sample_reviews) fs1 db1 of
             (Some x, fs2, db2) \<Rightarrow> (Some x, fs2, db2)
           | (None, fs2, db2) \<Rightarrow>
               seed_if_empty E ''blogpost'' (map EBlogPost sample_posts) fs2 db2))"

text \<open>
  \<^verbatim>\<open>ensure_seed_data\<close> returns the exception that leaves it, if any, and the database:
  \<^verbatim>\<open>except Exception: pass\<close> ends the routine normally whatever the body raised.
\<close>

definition ensure_seed_data ::
  "env \<Rightarrow> fault list \<Rightarrow> database option \<Rightarrow> exn option \<times> database option"
where
  "ensure_seed_data E fs db =
     (case seed_body E fs db of
        (Some x, _, db') \<Rightarrow> (None, db')
      | (None, _, db') \<Rightarrow> (None, db'))"

definition on_startup :: "env \<Rightarrow> fault list \<Rightarrow> database option \<Rightarrow> database option" where
  "on_startup E fs db = snd (ensure_seed_data E fs db)"

subsection \<open>Handlers\<close>

text \<open>The truth value of an \<^verbatim>\<open>Optional[str]\<close>: \<^verbatim>\<open>None\<close> and the empty string are false.\<close>

definition truthy :: "string option \<Rightarrow> bool" where
  "truthy x = (case x of None \<Rightarrow> False | Some s \<Rightarrow> s \<noteq> [])"

text \<open>\<^verbatim>\<open>it["_id"] = str(it.get("_id"))\<close>: the document as it is returned.\<close>

definition stringify_id :: "document \<Rightarrow> fields" where
  "stringify_id d = (''_id'', VStr (str_oid (oid d))) # body d"

definition read_root :: response where
  "read_root = Message ''Ayurvedic Pharmacy API running''"

text \<open>
  \<^verbatim>\<open>test_database\<close>; \<open>url\<close> is the value of the environment variable
  \<^verbatim>\<open>DATABASE_URL\<close>. Of the calls inside the outer \<^verbatim>\<open>try\<close> only
  \<^verbatim>\<open>db.list_collection_names()\<close> can fail on a store fault, and the inner handler
  catches it, so the outer handler has no case here.
\<close>

definition test_database :: "string option \<Rightarrow> fault \<Rightarrow> database option \<Rightarrow> response" where
  "test_database url f db =
     (let response =
        \<lparr>backend = Running, database = NotAvailable, database_url = NotSet,
         database_name = NotSet, connection_status = ''Not Connected'',
         collections = []\<rparr>
      in case db of
           None \<Rightarrow> Diagnostics response
         | Some d \<Rightarrow>
             (let response = response
                \<lparr>database := Available,
                 database_url := (if truthy url then IsSet else NotSet),
                 database_name := Text (database.name d),
                 connection_status := ''Connected''\<rparr>
              in case list_collection_names f d of
                   Inr ns \<Rightarrow>
                     Diagnostics (response\<lparr>collections := ns, database := ConnectedWorking\<rparr>)
                 | Inl e \<Rightarrow>
                     Diagnostics (response\<lparr>database := ConnectedButError (take 80 (str e))\<rparr>)))"

definition get_categories :: response where
  "get_categories = Categories PRODUCT_CATEGORIES"

definition product_filter :: "string option \<Rightarrow> string option \<Rightarrow> string option \<Rightarrow> filter" where
  "product_filter q category' subcategory' =
     (case category' of
        None \<Rightarrow> []
      | Some c \<Rightarrow> if truthy category' then [Field ''category'' (Eq (VStr c))] else []) @
     (case subcategory' of
        None \<Rightarrow> []
      | Some s \<Rightarrow> if truthy subcategory' then [Field ''subcategory'' (Eq (VStr s))] else []) @
     (case q of
        None \<Rightarrow> []
      | Some p \<Rightarrow>
          if truthy q
          then [Or [[(''title'', Regex p ''i'')], [(''description'', Regex p ''i'')]]]
          else [])"

text \<open>
  \<^verbatim>\<open>list_products\<close> after its call of \<^verbatim>\<open>ensure_seed_data\<close>: the \<^verbatim>\<open>try\<close> block.
\<close>

definition query_products ::
  "env \<Rightarrow> fault \<Rightarrow> database option \<Rightarrow> string option \<Rightarrow> string option \<Rightarrow> string option
     \<Rightarrow> response"
where
  "query_products E f db q category' subcategory' =
     (case get_documents E f db ''product'' (product_filter q category' subcategory') None of
        Inl e \<Rightarrow> HTTPException 500 (str e)
      | Inr items \<Rightarrow> Items (map stringify_id items))"

definition list_products ::
  "env \<Rightarrow> fault list \<Rightarrow> fault \<Rightarrow> database option
     \<Rightarrow> string option \<Rightarrow> string option \<Rightarrow> string option \<Rightarrow> response \<times> database option"
where
  "list_products E fs f db q category' subcategory' =
     (case ensure_seed_data E fs db of
        (Some x, db1) \<Rightarrow> (InternalServerError, db1)
      | (None, db1) \<Rightarrow> (query_products E f db1 q category' subcategory', db1))"

definition create_product ::
  "env \<Rightarrow> fault \<Rightarrow> database option \<Rightarrow> Product \<Rightarrow> response \<times> database option" where
  "create_product E f db product =
     (case create_document E f db ''product'' (EProduct product) of
        (Inl e, db') \<Rightarrow> (HTTPException 500 (str e), db')
      | (Inr i, db') \<Rightarrow> (Created i, db'))"

definition get_reviews ::
  "env \<Rightarrow> fault \<Rightarrow> database option \<Rightarrow> int \<Rightarrow> response \<times> database option" where
  "get_reviews E f db limit =
     (case get_documents E f db ''review'' [] (Some limit) of
        Inl e \<Rightarrow> (HTTPException 500 (str e), db)
      | Inr reviews \<Rightarrow> (Items (map stringify_id reviews), db))"

definition add_review ::
  "env \<Rightarrow> fault \<Rightarrow> database option \<Rightarrow> Review \<Rightarrow> response \<times> database option" where
  "add_review E f db review =
     (case create_document E f db ''review'' (EReview review) of
        (Inl e, db') \<Rightarrow> (HTTPException 500 (str e), db')
      | (Inr i, db') \<Rightarrow> (Created i, db'))"

definition blog_filter :: "string option \<Rightarrow> filter" where
  "blog_filter category' =
     (case category' of
        None \<Rightarrow> []
      | Some c \<Rightarrow> if truthy category' then [Field ''category'' (Eq (VStr c))] else [])"

definition query_blog :: "env \<Rightarrow> fault \<Rightarrow> database option \<Rightarrow> string option \<Rightarrow> response" where
  "query_blog E f db category' =
     (case get_documents E f db ''blogpost'' (blog_filter category') None of
        Inl e \<Rightarrow> HTTPException 500 (str e)
      | Inr posts \<Rightarrow> Items (map stringify_id posts))"

definition list_blog ::
  "env \<Rightarrow> fault list \<Rightarrow> fault \<Rightarrow> database option \<Rightarrow> string option
     \<Rightarrow> response \<times> database option"
where
  "list_blog E fs f db category' =
     (case ensure_seed_data E fs db of
        (Some x, db1) \<Rightarrow> (InternalServerError, db1)
      | (None, db1) \<Rightarrow> (query_blog E f db1 category', db1))"

text \<open>
  \<^verbatim>\<open>create_blog\<close>; \<open>now\<close> is what \<^verbatim>\<open>datetime.utcnow()\<close> returns. A \<^verbatim>\<open>datetime\<close> is true
  whatever its value, so \<^verbatim>\<open>not post.published_at\<close> holds for \<^verbatim>\<open>None\<close> only.
\<close>

definition create_blog ::
  "env \<Rightarrow> fault \<Rightarrow> datetime \<Rightarrow> database option \<Rightarrow> BlogPost \<Rightarrow> response \<times> database option"
where
  "create_blog E f now db post =
     (let post = (case BlogPost.published_at post of
                    None \<Rightarrow> post\<lparr>BlogPost.published_at := Some now\<rparr>
                  | Some t \<Rightarrow> post)
      in case create_document E f db ''blogpost'' (EBlogPost post) of
           (Inl e, db') \<Rightarrow> (HTTPException 500 (str e), db')
         | (Inr i, db') \<Rightarrow> (Created i, db'))"

definition get_services :: response where
  "get_services = Services SERVICES_INFO"

definition book_consultation ::
  "env \<Rightarrow> fault \<Rightarrow> database option \<Rightarrow> Consultation \<Rightarrow> response \<times> database option" where
  "book_consultation E f db data =
     (case create_document E f db ''consultation'' (EConsultation data) of
        (Inl e, db') \<Rightarrow> (HTTPException 500 (str e), db')
      | (Inr i, db') \<Rightarrow> (Received i, db'))"

definition contact ::
  "env \<Rightarrow> fault \<Rightarrow> database option \<Rightarrow> ContactMessage \<Rightarrow> response \<times> database option" where
  "contact E f db data =
     (case create_document E f db ''contactmessage'' (EContactMessage data) of
        (Inl e, db') \<Rightarrow> (HTTPException 500 (str e), db')
      | (Inr i, db') \<Rightarrow> (Received i, db'))"

subsection \<open>Requests\<close>

text \<open>
  The routes of the application. A request with a body is validated against the model
  of the handler's parameter first; the handler runs on the validated record only.
  \<open>GetReviews None\<close> is the request without \<^verbatim>\<open>limit\<close>, which defaults to 50.
\<close>

datatype request =
    GetRoot
  | GetTest
  | GetCategories
  | GetProducts "string option" "string option" "string option"
  | PostProducts Product_in
  | GetReviews "int option"
  | PostReviews Review_in
  | GetBlog "string option"
  | PostBlog BlogPost_in
  | GetServices
  | PostConsultations Consultation_in
  | PostContact ContactMessage_in

text \<open>
  What a request meets beyond the database: the faults of the store during seeding and
  on the handler's own operation, the clock, and the environment variable
  \<^verbatim>\<open>DATABASE_URL\<close>.
\<close>

record ctx =
  seed_faults :: "fault list"
  op_fault :: fault
  utcnow :: datetime
  DATABASE_URL :: "string option"

fun handle :: "env \<Rightarrow> ctx \<Rightarrow> database option \<Rightarrow> request \<Rightarrow> response \<times> database option" where
  "handle E C db GetRoot = (read_root, db)"
| "handle E C db GetTest = (test_database (DATABASE_URL C) (op_fault C) db, db)"
| "handle E C db GetCategories = (get_categories, db)"
| "handle E C db (GetProducts q category' subcategory') =
     list_products E (seed_faults C) (op_fault C) db q category' subcategory'"
| "handle E C db (PostProducts p) =
     (case validate_Product p of
        Inl es \<Rightarrow> (RequestValidationError es, db)
      | Inr product \<Rightarrow> create_product E (op_fault C) db product)"
| "handle E C db (GetReviews limit) =
     get_reviews E (op_fault C) db (case limit of None \<Rightarrow> 50 | Some n \<Rightarrow> n)"
| "handle E C db (PostReviews p) =
     (case validate_Review p of
        Inl es \<Rightarrow> (RequestValidationError es, db)
      | Inr review \<Rightarrow> add_review E (op_fault C) db review)"
| "handle E C db (GetBlog category') =
     list_blog E (seed_faults C) (op_fault C) db category'"
| "handle E C db (PostBlog p) =
     (case validate_BlogPost p of
        Inl es \<Rightarrow> (RequestValidationError es, db)
      | Inr post \<Rightarrow> create_blog E (op_fault C) (utcnow C) db post)"
| "handle E C db GetServices = (get_services, db)"
| "handle E C db (PostConsultations p) =
     (case validate_Consultation E p of
        Inl es \<Rightarrow> (RequestValidationError es, db)
      | Inr data \<Rightarrow> book_consultation E (op_fault C) db data)"
| "handle E C db (PostContact p) =
     (case validate_ContactMessage E p of
        Inl es \<Rightarrow> (RequestValidationError es, db)
      | Inr data \<Rightarrow> contact E (op_fault C) db data)"

section \<open>Notions used in the statements\<close>

text \<open>
  What the specification calls a case-insensitive substring: the text contains the
  query once both are put in lower case. A document matches a free-text query when its
  title or its description is a string that contains the query.
\<close>

definition contains_ci :: "string \<Rightarrow> string \<Rightarrow> bool" where
  "contains_ci q s = sublist (map lower q) (map lower s)"

definition field_contains :: "string \<Rightarrow> document \<Rightarrow> string \<Rightarrow> bool" where
  "field_contains q d k =
     (case map_of (body d) k of Some (VStr s) \<Rightarrow> contains_ci q s | _ \<Rightarrow> False)"

definition text_matches :: "string \<Rightarrow> document \<Rightarrow> bool" where
  "text_matches q d = (field_contains q d ''title'' \<or> field_contains q d ''description'')"

text \<open>
  A query is plain when none of its characters is special in a regular expression.
\<close>

definition plain :: "string \<Rightarrow> bool" where
  "plain q = list_all (\<lambda>c. c \<noteq> dot \<and> \<not> List.member special c) q"

text \<open>
  The store works during seeding when none of the operations is met by a fault.
\<close>

definition working :: "fault list \<Rightarrow> bool" where
  "working fs = list_all (\<lambda>f. f = None) fs"

text \<open>
  Seeding did its work on a collection: an empty collection has received the
  placeholder documents and nothing else, a populated one is as it was.
\<close>

definition seeded :: "database \<Rightarrow> database \<Rightarrow> string \<Rightarrow> entity list \<Rightarrow> bool" where
  "seeded d d' c es =
     (if coll d c = [] then map body (coll d' c) = map model_dump es
      else coll d' c = coll d c)"

text \<open>
  A database grows when every collection keeps the documents it had, unchanged and in
  their places, and at most gains new ones behind them; an absent handle stays absent.
\<close>

definition grows :: "database option \<Rightarrow> database option \<Rightarrow> bool" where
  "grows db db' =
     (case db of
        None \<Rightarrow> db' = None
      | Some d \<Rightarrow> (\<exists>d'. db' = Some d' \<and> (\<forall>c. prefix (coll d c) (coll d' c))))"

subsection \<open>Sample inputs\<close>

text \<open>Concrete inputs on which the results below are instantiated.\<close>

definition sample_env :: env where
  "sample_env =
     \<lparr>email_validator = (\<lambda>s. if List.member s (CHR ''@'') then Some s else None),
      regex_engine = (\<lambda>p opts s. Inl (StorageError ''regular expression not evaluated'')),
      unavailable = ''Database not available''\<rparr>"

definition sample_ctx :: ctx where
  "sample_ctx =
     \<lparr>seed_faults = [], op_fault = None, utcnow = Datetime 1700000000,
      DATABASE_URL = Some ''mongodb://localhost:27017''\<rparr>"

definition empty_db :: database where
  "empty_db = \<lparr>database.name = ''pharmacy'', colls = [], next_oid = 0\<rparr>"

definition neem_oil :: document where
  "neem_oil = \<lparr>oid = 0, body = model_dump (EProduct (hd samples))\<rparr>"

definition anika :: document where
  "anika = \<lparr>oid = 1, body = model_dump (EReview (hd sample_reviews))\<rparr>"

definition neem_post :: document where
  "neem_post = \<lparr>oid = 2, body = model_dump (EBlogPost (hd sample_posts))\<rparr>"

definition small_db :: database where
  "small_db =
     \<lparr>database.name = ''pharmacy'',
      colls = [(''product'', [neem_oil]), (''review'', [anika]), (''blogpost'', [neem_post])],
      next_oid = 3\<rparr>"

definition sample_review_in :: "int \<Rightarrow> Review_in" where
  "sample_review_in n =
     \<lparr>Review_in.name = Given ''Kamal'', rating = Given n,
      comment = Given ''Fast delivery.'', source = Missing\<rparr>"

definition sample_product_in :: "string field \<Rightarrow> Product_in" where
  "sample_product_in c =
     \<lparr>Product_in.title = Given ''Triphala Powder'', description = Missing,
      price = Given 9.5, category = c, subcategory = Given ''Powders'',
      image = Missing, in_stock = Missing\<rparr>"

definition sample_consultation_in :: "string field \<Rightarrow> Consultation_in" where
  "sample_consultation_in m =
     \<lparr>Consultation_in.full_name = Given ''Nimal Perera'',
      email = Given ''nimal@example.com'', phone = Missing, mode = m,
      preferred_date = Missing, message = Missing, service = Missing\<rparr>"

definition sample_post_in :: "datetime field \<Rightarrow> BlogPost_in" where
  "sample_post_in t =
     \<lparr>BlogPost_in.title = Given ''Turmeric at Home'', slug = Given ''turmeric-at-home'',
      category = Given ''Ayurveda for Daily Life'', excerpt = Given ''Golden milk.'',
      content = Given ''Warm the milk...'', cover_image = Missing, tags = Missing,
      published_at = t\<rparr>"

definition long_message :: string where
  "long_message = replicate 100 (CHR ''x'')"

definition two_products :: database where
  "two_products =
     insert_one (insert_one empty_db ''product'' (model_dump (EProduct (samples ! 0))))
       ''product'' (model_dump (EProduct (samples ! 1)))"

definition kamal :: Review where
  "kamal = \<lparr>Review.name = ''Kamal'', rating = 5, comment = ''Fast delivery.'',
            source = Some ''website''\<rparr>"

definition triphala :: Product where
  "triphala =
     \<lparr>Product.title = ''Triphala Powder'', description = None, price = 9.5,
      category = ''Ayurvedic Products'', subcategory = Some ''Powders'', image = None,
      in_stock = True\<rparr>"

definition turmeric :: "datetime \<Rightarrow> BlogPost" where
  "turmeric t =
     \<lparr>BlogPost.title = ''Turmeric at Home'', slug = ''turmeric-at-home'',
      category = ''Ayurveda for Daily Life'', excerpt = ''Golden milk.'',
      content = ''Warm the milk...'', cover_image = None, tags = None,
      published_at = Some t\<rparr>"

section \<open>Validation results\<close>

lemma ap_keeps_left:
  assumes "\<exists>es. c1 = Inl es \<and> v \<in> set es"
  shows "\<exists>es. ap c1 c2 = Inl es \<and> v \<in> set es"
  using assms by (cases c2) auto

lemma ap_keeps_right:
  assumes "\<exists>es. c2 = Inl es \<and> v \<in> set es"
  shows "\<exists>es. ap c1 c2 = Inl es \<and> v \<in> set es"
  using assms by (cases c1) auto

lemma ap_InrE:
  assumes "ap c1 c2 = Inr y"
  obtains f x where "c1 = Inr f" and "c2 = Inr x" and "y = f x"
  using assms by (cases c1; cases c2) auto

lemma rating_check:
  assumes "n < 1 \<or> 5 < (n::int)"
  shows "le ''rating'' 5 (ge ''rating'' 1 (required ''rating'' (Given n))) =
         Inl [(''rating'', if n < 1 then GreaterThanEqual else LessThanEqual)]"
  using assms by (auto simp: le_def ge_def required_def)

lemma validate_Review_rating:
  assumes "Review_in.rating p = Given n" and "n < 1 \<or> 5 < n"
  shows "\<exists>es. validate_Review p = Inl es \<and>
           (''rating'', if n < 1 then GreaterThanEqual else LessThanEqual) \<in> set es"
  unfolding validate_Review_def
  apply (rule ap_keeps_left, rule ap_keeps_left, rule ap_keeps_right)
  apply (simp add: assms(1) rating_check[OF assms(2)])
  done

text \<open>
  Claim C1. A review body whose rating is an integer below 1 or above 5 fails
  validation with an error that names the field \<^verbatim>\<open>rating\<close> and the bound it violates;
  \<^verbatim>\<open>POST /api/reviews\<close> answers with that validation error, inserts nothing, and leaves
  the database, the review collection included, as it was.
\<close>

theorem review_rating_out_of_range_rejected:
  assumes "Review_in.rating p = Given n" and "n < 1 \<or> 5 < n"
  shows "\<exists>es. validate_Review p = Inl es \<and>
           (''rating'', if n < 1 then GreaterThanEqual else LessThanEqual) \<in> set es \<and>
           handle E C db (PostReviews p) = (RequestValidationError es, db)"
proof -
  from validate_Review_rating[OF assms] obtain es where
    "validate_Review p = Inl es"
    "(''rating'', if n < 1 then GreaterThanEqual else LessThanEqual) \<in> set es"
    by blast
  then show ?thesis by simp
qed

theorem review_rating_out_of_range_rejected_witness:
  "Review_in.rating (sample_review_in 6) = Given 6 \<and> ((6::int) < 1 \<or> 5 < (6::int)) \<and>
   (\<exists>es. validate_Review (sample_review_in 6) = Inl es \<and>
      (''rating'', LessThanEqual) \<in> set es \<and>
      handle sample_env sample_ctx (Some small_db) (PostReviews (sample_review_in 6)) =
        (RequestValidationError es, Some small_db))"
proof -
  have h: "Review_in.rating (sample_review_in 6) = Given 6"
    by (simp add: sample_review_in_def)
  have r: "(6::int) < 1 \<or> 5 < (6::int)"
    by simp
  show ?thesis
    using h r
      review_rating_out_of_range_rejected
        [OF h r, of sample_env sample_ctx "Some small_db"]
    by simp
qed

lemma validate_Product_category:
  assumes "Product_in.category p = Missing"
  shows "\<exists>es. validate_Product p = Inl es \<and> (''category'', FieldRequired) \<in> set es"
  unfolding validate_Product_def
  apply (rule ap_keeps_left, rule ap_keeps_left, rule ap_keeps_left, rule ap_keeps_right)
  apply (simp add: required_def assms)
  done

lemma validate_Consultation_mode:
  assumes "Consultation_in.mode p = Missing"
  shows "\<exists>es. validate_Consultation E p = Inl es \<and> (''mode'', FieldRequired) \<in> set es"
  unfolding validate_Consultation_def
  apply (rule ap_keeps_left, rule ap_keeps_left, rule ap_keeps_left, rule ap_keeps_right)
  apply (simp add: required_def assms)
  done

text \<open>
  Claim C10. The models require fields beyond those the data-model table of the
  specification marks as required: a product body without \<^verbatim>\<open>category\<close> and a
  consultation body without \<^verbatim>\<open>mode\<close> each fail validation with an error that names
  the missing field, the request is answered with that validation error, and nothing
  is stored.
\<close>

theorem category_and_mode_are_required:
  "(Product_in.category p = Missing \<longrightarrow>
      (\<exists>es. validate_Product p = Inl es \<and> (''category'', FieldRequired) \<in> set es \<and>
            handle E C db (PostProducts p) = (RequestValidationError es, db))) \<and>
   (Consultation_in.mode c = Missing \<longrightarrow>
      (\<exists>es. validate_Consultation E c = Inl es \<and> (''mode'', FieldRequired) \<in> set es \<and>
            handle E C db (PostConsultations c) = (RequestValidationError es, db)))"
proof (intro conjI impI)
  assume "Product_in.category p = Missing"
  from validate_Product_category[OF this] obtain es where
    "validate_Product p = Inl es" and "(''category'', FieldRequired) \<in> set es"
    by blast
  then show "\<exists>es. validate_Product p = Inl es \<and> (''category'', FieldRequired) \<in> set es \<and>
            handle E C db (PostProducts p) = (RequestValidationError es, db)"
    by simp
next
  assume "Consultation_in.mode c = Missing"
  from validate_Consultation_mode[OF this] obtain es where
    "validate_Consultation E c = Inl es" and "(''mode'', FieldRequired) \<in> set es"
    by blast
  then show "\<exists>es. validate_Consultation E c = Inl es \<and> (''mode'', FieldRequired) \<in> set es \<and>
            handle E C db (PostConsultations c) = (RequestValidationError es, db)"
    by simp
qed

theorem category_and_mode_are_required_witness:
  "Product_in.category (sample_product_in Missing) = Missing \<and>
   Consultation_in.mode (sample_consultation_in Missing) = Missing \<and>
   (\<exists>es. validate_Product (sample_product_in Missing) = Inl es \<and>
      (''category'', FieldRequired) \<in> set es \<and>
      handle sample_env sample_ctx (Some small_db) (PostProducts (sample_product_in Missing)) =
        (RequestValidationError es, Some small_db)) \<and>
   (\<exists>es. validate_Consultation sample_env (sample_consultation_in Missing) = Inl es \<and>
      (''mode'', FieldRequired) \<in> set es \<and>
      handle sample_env sample_ctx (Some small_db)
          (PostConsultations (sample_consultation_in Missing)) =
        (RequestValidationError es, Some small_db))"
proof -
  have h1: "Product_in.category (sample_product_in Missing) = Missing"
    by (simp add: sample_product_in_def)
  have h2: "Consultation_in.mode (sample_consultation_in Missing) = Missing"
    by (simp add: sample_consultation_in_def)
  show ?thesis
    using h1 h2
      category_and_mode_are_required
        [of "sample_product_in Missing" sample_env sample_ctx "Some small_db"
            "sample_consultation_in Missing"]
    by simp
qed

section \<open>Inserting\<close>

lemma validate_BlogPost_published_at:
  assumes "validate_BlogPost p = Inr post"
  shows "BlogPost.published_at post =
           (case BlogPost_in.published_at p of Given t \<Rightarrow> Some t | _ \<Rightarrow> None)"
  using assms unfolding validate_BlogPost_def
  by (elim ap_InrE) (auto simp: optional_def split: field.splits)

lemma coll_insert_one:
  "coll (insert_one d c flds) c' =
     (if c' = c then coll d c @ [\<lparr>oid = next_oid d, body = flds\<rparr>] else coll d c')"
  by (simp add: insert_one_def coll_def update_conv')

lemma create_document_ok:
  "create_document E None (Some d) c e =
     (Inr (str_oid (next_oid d)), Some (insert_one d c (model_dump e)))"
  by (simp add: create_document_def)

lemma coll_empty_db: "coll empty_db c = []"
  by (simp add: coll_def empty_db_def)

lemma next_oid_insert_one: "next_oid (insert_one d c flds) = Suc (next_oid d)"
  by (simp add: insert_one_def)

lemma next_oid_empty_db: "next_oid empty_db = 0"
  by (simp add: empty_db_def)

lemma small_db_nonempty:
  "coll small_db ''product'' \<noteq> []" "coll small_db ''review'' \<noteq> []"
  "coll small_db ''blogpost'' \<noteq> []"
  by (simp_all add: small_db_def coll_def)

lemma small_db_products: "coll small_db ''product'' = [neem_oil]"
  by (simp add: small_db_def coll_def)

text \<open>
  Claim C5. For every body that validates as a blog post, \<^verbatim>\<open>POST /api/blog\<close> on a
  working store answers with the identifier of a new document and the blog collection
  gains exactly that document: the validated post, with \<^verbatim>\<open>published_at\<close> equal to the
  supplied time when the body carries one, unchanged, and equal to the time of creation
  (the clock reading of the request) when the body has none.
\<close>

theorem blog_published_at_assigned_or_preserved:
  assumes "validate_BlogPost p = Inr post" and "op_fault C = None"
  shows "\<exists>d' doc.
           handle E C (Some d) (PostBlog p) = (Created (str_oid (oid doc)), Some d') \<and>
           coll d' ''blogpost'' = coll d ''blogpost'' @ [doc] \<and>
           body doc =
             model_dump (EBlogPost (post\<lparr>BlogPost.published_at :=
               Some (case BlogPost_in.published_at p of
                       Given t \<Rightarrow> t | _ \<Rightarrow> utcnow C)\<rparr>)) \<and>
           map_of (body doc) ''published_at'' =
             Some (VDatetime (case BlogPost_in.published_at p of
                                Given t \<Rightarrow> t | _ \<Rightarrow> utcnow C))"
proof -
  let ?t = "case BlogPost_in.published_at p of Given t \<Rightarrow> t | _ \<Rightarrow> utcnow C"
  let ?post = "post\<lparr>BlogPost.published_at := Some ?t\<rparr>"
  let ?doc = "\<lparr>oid = next_oid d, body = model_dump (EBlogPost ?post)\<rparr>"
  have "(case BlogPost.published_at post of
           None \<Rightarrow> post\<lparr>BlogPost.published_at := Some (utcnow C)\<rparr>
         | Some t \<Rightarrow> post) = ?post"
    using validate_BlogPost_published_at[OF assms(1)]
    by (cases "BlogPost_in.published_at p") simp_all
  then have h: "handle E C (Some d) (PostBlog p) =
      (Created (str_oid (oid ?doc)),
       Some (insert_one d ''blogpost'' (model_dump (EBlogPost ?post))))"
    by (simp add: assms create_blog_def create_document_ok)
  have c: "coll (insert_one d ''blogpost'' (model_dump (EBlogPost ?post))) ''blogpost'' =
      coll d ''blogpost'' @ [?doc]"
    by (simp add: coll_insert_one)
  have m: "map_of (body ?doc) ''published_at'' = Some (VDatetime ?t)"
    by (simp add: opt_datetime_def)
  from h c m show ?thesis
    by (intro exI[of _ "insert_one d ''blogpost'' (model_dump (EBlogPost ?post))"]
          exI[of _ ?doc]) simp
qed

lemma validate_turmeric_missing:
  "validate_BlogPost (sample_post_in Missing) =
     Inr ((turmeric t)\<lparr>BlogPost.published_at := None\<rparr>)"
  by (simp add: validate_BlogPost_def sample_post_in_def required_def optional_def
        turmeric_def)

lemma validate_turmeric_given:
  "validate_BlogPost (sample_post_in (Given t)) = Inr (turmeric t)"
  by (simp add: validate_BlogPost_def sample_post_in_def required_def optional_def
        turmeric_def)

lemma published_at_sample: "BlogPost_in.published_at (sample_post_in t) = t"
  by (simp add: sample_post_in_def)

lemma post_blog_missing:
  "handle sample_env sample_ctx (Some small_db) (PostBlog (sample_post_in Missing)) =
     (Created (str_oid 3),
      Some (insert_one small_db ''blogpost''
              (model_dump (EBlogPost (turmeric (Datetime 1700000000))))))"
  by (simp add: validate_turmeric_missing[of "Datetime 1700000000"] create_blog_def
        create_document_ok sample_ctx_def turmeric_def small_db_def)

theorem blog_published_at_assigned_or_preserved_witness:
  "validate_BlogPost (sample_post_in Missing) =
     Inr ((turmeric (Datetime 0))\<lparr>BlogPost.published_at := None\<rparr>) \<and>
   validate_BlogPost (sample_post_in (Given (Datetime 1650000000))) =
     Inr (turmeric (Datetime 1650000000)) \<and>
   op_fault sample_ctx = None \<and>
   handle sample_env sample_ctx (Some small_db) (PostBlog (sample_post_in Missing)) =
     (Created (str_oid 3),
      Some (insert_one small_db ''blogpost''
              (model_dump (EBlogPost (turmeric (Datetime 1700000000)))))) \<and>
   (\<exists>d' doc.
      handle sample_env sample_ctx (Some small_db) (PostBlog (sample_post_in Missing)) =
        (Created (str_oid (oid doc)), Some d') \<and>
      coll d' ''blogpost'' = coll small_db ''blogpost'' @ [doc] \<and>
      map_of (body doc) ''published_at'' = Some (VDatetime (utcnow sample_ctx))) \<and>
   (\<exists>d' doc.
      handle sample_env sample_ctx (Some small_db)
          (PostBlog (sample_post_in (Given (Datetime 1650000000)))) =
        (Created (str_oid (oid doc)), Some d') \<and>
      coll d' ''blogpost'' = coll small_db ''blogpost'' @ [doc] \<and>
      map_of (body doc) ''published_at'' = Some (VDatetime (Datetime 1650000000)))"
proof -
  have f: "op_fault sample_ctx = None"
    by (simp add: sample_ctx_def)
  have a: "\<exists>d' doc.
      handle sample_env sample_ctx (Some small_db) (PostBlog (sample_post_in Missing)) =
        (Created (str_oid (oid doc)), Some d') \<and>
      coll d' ''blogpost'' = coll small_db ''blogpost'' @ [doc] \<and>
      map_of (body doc) ''published_at'' = Some (VDatetime (utcnow sample_ctx))"
    using blog_published_at_assigned_or_preserved
      [OF validate_turmeric_missing [of "Datetime 0"] f, of sample_env small_db]
    by (auto simp: published_at_sample)
  have b: "\<exists>d' doc.
      handle sample_env sample_ctx (Some small_db)
          (PostBlog (sample_post_in (Given (Datetime 1650000000)))) =
        (Created (str_oid (oid doc)), Some d') \<and>
      coll d' ''blogpost'' = coll small_db ''blogpost'' @ [doc] \<and>
      map_of (body doc) ''published_at'' = Some (VDatetime (Datetime 1650000000))"
    using blog_published_at_assigned_or_preserved
      [OF validate_turmeric_given [of "Datetime 1650000000"] f, of sample_env small_db]
    by (auto simp: published_at_sample)
  from validate_turmeric_missing [of "Datetime 0"] validate_turmeric_given f
    post_blog_missing a b
  show ?thesis
    by blast
qed

section \<open>Seeding\<close>

lemma seed_if_empty_nonempty:
  assumes "coll d c \<noteq> []"
  shows "\<exists>x fs'. seed_if_empty E c es fs (Some d) = (x, fs', Some d)"
  using assms by (simp add: seed_if_empty_def count_documents_def split: option.splits)

lemma seed_body_nonempty:
  assumes "coll d ''product'' \<noteq> []" and "coll d ''review'' \<noteq> []"
    and "coll d ''blogpost'' \<noteq> []"
  shows "\<exists>x fs'. seed_body E fs (Some d) = (x, fs', Some d)"
proof -
  obtain x1 fs1 where 1: "seed_if_empty E ''product'' (map EProduct samples) fs (Some d) = (x1, fs1, Some d)"
    using seed_if_empty_nonempty[OF assms(1)] by blast
  obtain x2 fs2 where 2: "seed_if_empty E ''review'' (map EReview sample_reviews) fs1 (Some d) = (x2, fs2, Some d)"
    using seed_if_empty_nonempty[OF assms(2)] by blast
  obtain x3 fs3 where 3: "seed_if_empty E ''blogpost'' (map EBlogPost sample_posts) fs2 (Some d) = (x3, fs3, Some d)"
    using seed_if_empty_nonempty[OF assms(3)] by blast
  show ?thesis
    unfolding seed_body_def 1
    by (cases x1; cases x2) (simp_all add: 2 3)
qed

lemma ensure_seed_data_nonempty:
  assumes "coll d ''product'' \<noteq> []" and "coll d ''review'' \<noteq> []"
    and "coll d ''blogpost'' \<noteq> []"
  shows "ensure_seed_data E fs (Some d) = (None, Some d)"
proof -
  obtain x fs' where "seed_body E fs (Some d) = (x, fs', Some d)"
    using seed_body_nonempty[OF assms] by blast
  then show ?thesis by (cases x) (simp_all add: ensure_seed_data_def)
qed

text \<open>
  Claim C6. When the product, review and blogpost collections each hold a document,
  the seeding routine inserts nothing, whatever the store does on its operations: it
  returns normally with the database it was given, and so does a second run after it.
\<close>

theorem seeding_leaves_populated_store_unchanged:
  assumes "coll d ''product'' \<noteq> []" and "coll d ''review'' \<noteq> []"
    and "coll d ''blogpost'' \<noteq> []"
  shows "ensure_seed_data E fs (Some d) = (None, Some d) \<and>
         ensure_seed_data E fs' (snd (ensure_seed_data E fs (Some d))) = (None, Some d)"
  by (simp add: ensure_seed_data_nonempty[OF assms])

theorem seeding_leaves_populated_store_unchanged_witness:
  "coll small_db ''product'' \<noteq> [] \<and> coll small_db ''review'' \<noteq> [] \<and>
   coll small_db ''blogpost'' \<noteq> [] \<and>
   ensure_seed_data sample_env [] (Some small_db) = (None, Some small_db) \<and>
   ensure_seed_data sample_env []
     (snd (ensure_seed_data sample_env [] (Some small_db))) = (None, Some small_db)"
  using small_db_nonempty seeding_leaves_populated_store_unchanged [OF small_db_nonempty, of sample_env "[]" "[]"]
  by simp

section \<open>Only inserts\<close>

lemma grows_refl: "grows db db"
  by (simp add: grows_def split: option.splits)

lemma grows_trans:
  assumes "grows a b" and "grows b c"
  shows "grows a c"
proof (cases a)
  case None
  with assms show ?thesis by (simp add: grows_def)
next
  case (Some d)
  with assms(1) obtain d1 where b: "b = Some d1" and 1: "\<And>k. prefix (coll d k) (coll d1 k)"
    by (auto simp: grows_def)
  with assms(2) obtain d2 where c: "c = Some d2" and 2: "\<And>k. prefix (coll d1 k) (coll d2 k)"
    by (auto simp: grows_def)
  have "prefix (coll d k) (coll d2 k)" for k
    using 1[of k] 2[of k] by (rule prefix_order.trans)
  with Some c show ?thesis by (simp add: grows_def)
qed

lemma grows_insert_one: "grows (Some d) (Some (insert_one d c flds))"
  by (simp add: grows_def coll_insert_one)

lemma create_document_grows:
  "create_document E f db c e = (r, db') \<Longrightarrow> grows db db'"
  by (auto simp: create_document_def grows_refl grows_insert_one split: option.splits)

lemma create_all_grows:
  "create_all E c es fs db = (x, fs', db') \<Longrightarrow> grows db db'"
proof (induction es arbitrary: fs db)
  case Nil
  then show ?case by (simp add: grows_refl)
next
  case (Cons e es)
  obtain r db1 where r: "create_document E (next_fault fs) db c e = (r, db1)"
    by (cases "create_document E (next_fault fs) db c e")
  show ?case
  proof (cases r)
    case (Inl a)
    with Cons.prems r have "db' = db1" by simp
    with r show ?thesis by (simp add: create_document_grows)
  next
    case (Inr b)
    with Cons.prems r have "create_all E c es (rest fs) db1 = (x, fs', db')" by simp
    then have "grows db1 db'" by (rule Cons.IH)
    with create_document_grows[OF r] show ?thesis by (rule grows_trans)
  qed
qed

lemma seed_if_empty_grows:
  "seed_if_empty E c es fs db = (x, fs', db') \<Longrightarrow> grows db db'"
  by (auto simp: seed_if_empty_def grows_refl create_all_grows split: sum.splits if_splits)

lemma seed_body_grows:
  assumes "seed_body E fs db = (x, fs', db')"
  shows "grows db db'"
proof -
  obtain x1 fs1 db1 where 1:
    "seed_if_empty E ''product'' (map EProduct samples) fs db = (x1, fs1, db1)"
    by (metis prod_cases3)
  obtain x2 fs2 db2 where 2:
    "seed_if_empty E ''review'' (map EReview sample_reviews) fs1 db1 = (x2, fs2, db2)"
    by (metis prod_cases3)
  obtain x3 fs3 db3 where 3:
    "seed_if_empty E ''blogpost'' (map EBlogPost sample_posts) fs2 db2 = (x3, fs3, db3)"
    by (metis prod_cases3)
  note g = seed_if_empty_grows[OF 1] seed_if_empty_grows[OF 2] seed_if_empty_grows[OF 3]
  from assms have "db' = db1 \<or> db' = db2 \<or> db' = db3"
    by (auto simp: seed_body_def 1 2 3 split: option.splits)
  with g show ?thesis
    by (auto intro: grows_trans)
qed

lemma ensure_seed_data_result:
  "\<exists>db'. ensure_seed_data E fs db = (None, db') \<and> grows db db'"
proof -
  obtain x fs' db' where b: "seed_body E fs db = (x, fs', db')"
    by (metis prod_cases3)
  from seed_body_grows[OF b] b show ?thesis
    by (cases x) (simp_all add: ensure_seed_data_def)
qed

lemma ensure_seed_data_Some:
  "\<exists>d'. ensure_seed_data E fs (Some d) = (None, Some d')"
  using ensure_seed_data_result[of E fs "Some d"] by (auto simp: grows_def)

lemma list_products_grows: "grows db (snd (list_products E fs f db q c s))"
  using ensure_seed_data_result[of E fs db] by (auto simp: list_products_def)

lemma list_blog_grows: "grows db (snd (list_blog E fs f db c))"
  using ensure_seed_data_result[of E fs db] by (auto simp: list_blog_def)

lemma create_product_grows: "grows db (snd (create_product E f db x))"
  by (auto simp: create_product_def split: prod.splits sum.splits dest: create_document_grows)

lemma add_review_grows: "grows db (snd (add_review E f db x))"
  by (auto simp: add_review_def split: prod.splits sum.splits dest: create_document_grows)

lemma create_blog_grows: "grows db (snd (create_blog E f now db x))"
  by (auto simp: create_blog_def Let_def split: prod.splits sum.splits dest: create_document_grows)

lemma book_consultation_grows: "grows db (snd (book_consultation E f db x))"
  by (auto simp: book_consultation_def split: prod.splits sum.splits dest: create_document_grows)

lemma contact_grows: "grows db (snd (contact E f db x))"
  by (auto simp: contact_def split: prod.splits sum.splits dest: create_document_grows)

lemma get_reviews_same: "snd (get_reviews E f db n) = db"
  by (simp add: get_reviews_def split: sum.splits)

lemma handle_grows: "grows db (snd (handle E C db r))"
  by (cases r)
     (simp_all add: grows_refl list_products_grows list_blog_grows create_product_grows
        add_review_grows create_blog_grows book_consultation_grows contact_grows
        get_reviews_same split: sum.splits)

text \<open>
  Claim C9. No endpoint updates or deletes a stored document: whatever the request,
  the store's faults and the clock, an absent handle stays absent, and otherwise every
  collection after the request is the collection before it followed by the documents
  the request inserted, if any.
\<close>

theorem endpoints_only_insert:
  "(db = None \<longrightarrow> snd (handle E C db r) = None) \<and>
   (\<forall>d. db = Some d \<longrightarrow>
      (\<exists>d'. snd (handle E C db r) = Some d' \<and>
            (\<forall>c. \<exists>new. coll d' c = coll d c @ new)))"
  using handle_grows[of db E C r] by (auto simp: grows_def prefix_def)

theorem endpoints_only_insert_witness:
  "\<exists>d'. snd (handle sample_env sample_ctx (Some small_db) (PostReviews (sample_review_in 5))) =
           Some d' \<and>
         (\<forall>c. \<exists>new. coll d' c = coll small_db c @ new)"
  using endpoints_only_insert [of "Some small_db" sample_env sample_ctx "PostReviews (sample_review_in 5)"]
  by simp

section \<open>Storage errors\<close>

lemma validate_triphala:
  "validate_Product (sample_product_in (Given ''Ayurvedic Products'')) = Inr triphala"
  by (simp add: validate_Product_def sample_product_in_def required_def optional_def
        defaulted_def ge_def triphala_def)

text \<open>
  Claim C3, as amended. When the store raises an error on the query of
  \<^verbatim>\<open>GET /api/products\<close> or on the insert of \<^verbatim>\<open>POST /api/products\<close>, the endpoint
  answers with status 500 and the detail is the store's message in full: the handlers
  pass \<^verbatim>\<open>str(e)\<close> on as it is. (Errors raised while seeding, before the query, are
  swallowed and do not reach the response.)
\<close>

theorem storage_error_detail_is_full_message:
  assumes "op_fault C = Some m"
  shows "fst (handle E C (Some d) (GetProducts q c s)) = HTTPException 500 m \<and>
         (validate_Product p = Inr product \<longrightarrow>
            handle E C (Some d) (PostProducts p) = (HTTPException 500 m, Some d))"
proof -
  obtain d' where "ensure_seed_data E (seed_faults C) (Some d) = (None, Some d')"
    using ensure_seed_data_Some by blast
  then show ?thesis
    using assms
    by (simp add: list_products_def query_products_def get_documents_def
          create_product_def create_document_def)
qed

theorem storage_error_detail_is_full_message_witness:
  "op_fault (sample_ctx\<lparr>op_fault := Some ''connection refused''\<rparr>) =
     Some ''connection refused'' \<and>
   validate_Product (sample_product_in (Given ''Ayurvedic Products'')) = Inr triphala \<and>
   fst (handle sample_env (sample_ctx\<lparr>op_fault := Some ''connection refused''\<rparr>)
          (Some small_db) (GetProducts None None None)) =
     HTTPException 500 ''connection refused'' \<and>
   handle sample_env (sample_ctx\<lparr>op_fault := Some ''connection refused''\<rparr>)
       (Some small_db) (PostProducts (sample_product_in (Given ''Ayurvedic Products''))) =
     (HTTPException 500 ''connection refused'', Some small_db)"
proof -
  have h: "op_fault (sample_ctx\<lparr>op_fault := Some ''connection refused''\<rparr>) =
     Some ''connection refused''"
    by simp
  show ?thesis
    using h validate_triphala
      storage_error_detail_is_full_message [OF h, of sample_env small_db None None None
            "sample_product_in (Given ''Ayurvedic Products'')" triphala]
    by simp
qed

text \<open>
  Claim C3, as stated, fails: for a message of one hundred characters the detail of
  both endpoints is the whole message, not a shortened form of it; the first eighty
  characters, to which the diagnostics of \<^verbatim>\<open>/test\<close> cut a message, differ from it.
\<close>

theorem storage_error_detail_not_truncated:
  "fst (handle sample_env (sample_ctx\<lparr>op_fault := Some long_message\<rparr>) (Some small_db)
          (GetProducts None None None)) = HTTPException 500 long_message \<and>
   fst (handle sample_env (sample_ctx\<lparr>op_fault := Some long_message\<rparr>) (Some small_db)
          (PostProducts (sample_product_in (Given ''Ayurvedic Products'')))) =
     HTTPException 500 long_message \<and>
   length long_message = 100 \<and> take 80 long_message \<noteq> long_message"
proof -
  have ne: "coll small_db ''product'' \<noteq> []" "coll small_db ''review'' \<noteq> []"
      "coll small_db ''blogpost'' \<noteq> []"
    by (simp_all add: small_db_def coll_def)
  have s: "ensure_seed_data sample_env [] (Some small_db) = (None, Some small_db)"
    by (rule ensure_seed_data_nonempty[OF ne])
  have 1: "fst (handle sample_env (sample_ctx\<lparr>op_fault := Some long_message\<rparr>) (Some small_db)
          (GetProducts None None None)) = HTTPException 500 long_message"
    by (simp add: sample_ctx_def list_products_def s query_products_def get_documents_def)
  have v: "validate_Product (sample_product_in (Given ''Ayurvedic Products'')) =
      Inr \<lparr>Product.title = ''Triphala Powder'', description = None, price = 9.5,
           category = ''Ayurvedic Products'', subcategory = Some ''Powders'', image = None,
           in_stock = True\<rparr>"
    by (simp add: validate_Product_def sample_product_in_def required_def optional_def
          defaulted_def ge_def)
  have 2: "fst (handle sample_env (sample_ctx\<lparr>op_fault := Some long_message\<rparr>) (Some small_db)
          (PostProducts (sample_product_in (Given ''Ayurvedic Products'')))) =
     HTTPException 500 long_message"
    by (simp add: v sample_ctx_def create_product_def create_document_def)
  have 3: "length long_message = 100 \<and> take 80 long_message \<noteq> long_message"
    by (simp add: long_message_def)
  from 1 2 3 show ?thesis by blast
qed

section \<open>Failures while seeding\<close>

text \<open>
  Claim C7, as amended. Whatever fails inside the seeding routine, the routine returns
  normally and no exception leaves it; the endpoint that called it answers with what its
  own query finds in the database as seeding left it. When the failure comes before any
  insert was made (the handle is absent, or the first operation of seeding fails), the
  database is unchanged and the response is the one the endpoint gives without seeding.
\<close>

theorem seeding_failure_is_swallowed:
  "fst (ensure_seed_data E fs db) = None \<and>
   list_products E fs f db q c s =
     (query_products E f (snd (ensure_seed_data E fs db)) q c s,
      snd (ensure_seed_data E fs db)) \<and>
   list_blog E fs f db c =
     (query_blog E f (snd (ensure_seed_data E fs db)) c, snd (ensure_seed_data E fs db)) \<and>
   (db = None \<or> next_fault fs \<noteq> None \<longrightarrow>
      fst (seed_body E fs db) \<noteq> None \<and>
      snd (ensure_seed_data E fs db) = db \<and>
      fst (list_products E fs f db q c s) = query_products E f db q c s \<and>
      fst (list_blog E fs f db c) = query_blog E f db c)"
proof -
  obtain db' where e: "ensure_seed_data E fs db = (None, db')"
    using ensure_seed_data_result by blast
  have first: "fst (seed_body E fs db) \<noteq> None \<and> snd (ensure_seed_data E fs db) = db"
    if "db = None \<or> next_fault fs \<noteq> None"
    using that
    by (auto simp: ensure_seed_data_def seed_body_def seed_if_empty_def count_documents_def
        split: option.splits)
  show ?thesis
    using e first by (auto simp: list_products_def list_blog_def)
qed

theorem seeding_failure_is_swallowed_witness:
  "next_fault [Some ''store unavailable''] \<noteq> None \<and>
   fst (ensure_seed_data sample_env [Some ''store unavailable''] (Some empty_db)) = None \<and>
   fst (seed_body sample_env [Some ''store unavailable''] (Some empty_db)) \<noteq> None \<and>
   snd (ensure_seed_data sample_env [Some ''store unavailable''] (Some empty_db)) =
     Some empty_db \<and>
   fst (list_products sample_env [Some ''store unavailable''] None (Some empty_db)
          None None None) =
     query_products sample_env None (Some empty_db) None None None \<and>
   fst (list_blog sample_env [Some ''store unavailable''] None (Some empty_db) None) =
     query_blog sample_env None (Some empty_db) None"
proof -
  have h: "next_fault [Some ''store unavailable''] \<noteq> None"
    by (simp add: next_fault_def)
  show ?thesis
    using h
      seeding_failure_is_swallowed [of sample_env "[Some ''store unavailable'']" "Some empty_db" None None None None]
    by simp
qed

lemma seed_interrupted:
  "seed_body sample_env [None, None, None, Some ''write rejected''] (Some empty_db) =
     (Some (StorageError ''write rejected''), [], Some two_products)"
  by (simp add: seed_body_def seed_if_empty_def count_documents_def coll_empty_db
        next_fault_def rest_def samples_def create_document_def two_products_def)

lemma coll_two_products:
  "coll two_products ''product'' =
     [\<lparr>oid = 0, body = model_dump (EProduct (samples ! 0))\<rparr>,
      \<lparr>oid = 1, body = model_dump (EProduct (samples ! 1))\<rparr>]"
  by (simp add: two_products_def coll_insert_one coll_empty_db next_oid_insert_one
        next_oid_empty_db)

text \<open>
  Claim C7, as stated, fails: on an empty database, let the count and the first two
  inserts of seeding go through and the store reject the third insert. The failure is
  swallowed, but the two products inserted before it stay, and
  \<^verbatim>\<open>GET /api/products\<close> returns them, while without seeding it returns nothing.
\<close>

theorem interrupted_seeding_changes_response:
  "fst (seed_body sample_env [None, None, None, Some ''write rejected''] (Some empty_db)) =
     Some (StorageError ''write rejected'') \<and>
   fst (ensure_seed_data sample_env [None, None, None, Some ''write rejected''] (Some empty_db)) =
     None \<and>
   fst (handle sample_env (sample_ctx\<lparr>seed_faults := [None, None, None, Some ''write rejected'']\<rparr>)
          (Some empty_db) (GetProducts None None None)) =
     Items [stringify_id \<lparr>oid = 0, body = model_dump (EProduct (samples ! 0))\<rparr>,
            stringify_id \<lparr>oid = 1, body = model_dump (EProduct (samples ! 1))\<rparr>] \<and>
   query_products sample_env None (Some empty_db) None None None = Items []"
  by (simp add: seed_interrupted ensure_seed_data_def list_products_def query_products_def
        get_documents_def product_filter_def matches_def cap_def coll_two_products
        coll_empty_db sample_ctx_def)

section \<open>Filters\<close>

lemma filter_m_Inr:
  "filter_m f xs = Inr ys \<Longrightarrow> y \<in> set ys \<Longrightarrow> y \<in> set xs \<and> f y = Inr True"
proof (induction xs arbitrary: ys)
  case Nil
  then show ?case by simp
next
  case (Cons x xs)
  from Cons.prems(1) obtain b zs where
    b: "f x = Inr b" and zs: "filter_m f xs = Inr zs" and ys: "ys = (if b then x # zs else zs)"
    by (auto split: sum.splits)
  show ?case
  proof (cases "y \<in> set zs")
    case True
    with Cons.IH[OF zs] show ?thesis by simp
  next
    case False
    with Cons.prems(2) ys have "b" "y = x" by (auto split: if_splits)
    with b show ?thesis by simp
  qed
qed

lemma filter_m_exact:
  "(\<And>x. x \<in> set xs \<Longrightarrow> f x = Inr (P x)) \<Longrightarrow> filter_m f xs = Inr (filter P xs)"
  by (induction xs) auto

lemma all_m_True:
  "all_m f xs = Inr True \<Longrightarrow> x \<in> set xs \<Longrightarrow> f x = Inr True"
  by (induction xs) (auto split: sum.splits if_splits)

lemma get_documents_holds:
  assumes "get_documents E f db c filt None = Inr ds" and "d \<in> set ds"
    and "cr \<in> set filt"
  shows "criterion_holds E d cr = Inr True"
proof -
  from assms(1) obtain d0 where "filter_m (matches E filt) (coll d0 c) = Inr ds"
    by (auto simp: get_documents_def cap_def split: option.splits sum.splits)
  from filter_m_Inr[OF this assms(2)] have "matches E filt d = Inr True" by simp
  then show ?thesis
    unfolding matches_def using assms(3) by (rule all_m_True)
qed

lemma list_products_Items:
  assumes "handle E C db (GetProducts q c s) = (Items xs, db')"
  shows "\<exists>ds. get_documents E (op_fault C) db' ''product'' (product_filter q c s) None = Inr ds \<and>
           xs = map stringify_id ds"
proof -
  obtain db1 where e: "ensure_seed_data E (seed_faults C) db = (None, db1)"
    using ensure_seed_data_result by blast
  with assms show ?thesis
    by (auto simp: list_products_def query_products_def split: sum.splits)
qed

lemma neem_title: "map_of (body neem_oil) ''title'' = Some (VStr ''Neem Herbal Oil'')"
  by (simp add: neem_oil_def samples_def)

lemma neem_description:
  "map_of (body neem_oil) ''description'' =
     Some (VStr ''Cold-pressed neem oil for skin and scalp.'')"
  by (simp add: neem_oil_def samples_def opt_str_def)

lemma neem_category:
  "map_of (body neem_oil) ''category'' = Some (VStr ''Ayurvedic Products'')"
  by (simp add: neem_oil_def samples_def)

lemma neem_subcategory: "map_of (body neem_oil) ''subcategory'' = Some (VStr ''Oils'')"
  by (simp add: neem_oil_def samples_def opt_str_def)

lemma get_ayurvedic_oils:
  "handle sample_env sample_ctx (Some small_db)
     (GetProducts None (Some ''Ayurvedic Products'') (Some ''Oils'')) =
   (Items [stringify_id neem_oil], Some small_db)"
  by (simp add: list_products_def ensure_seed_data_nonempty[OF small_db_nonempty]
        query_products_def get_documents_def product_filter_def truthy_def matches_def
        criterion_holds_def field_holds_def neem_category neem_subcategory
        cap_def small_db_products sample_ctx_def)

text \<open>
  Claim C8, as amended. For every non-empty category value supplied to
  \<^verbatim>\<open>GET /api/products\<close>, every record returned has a category field equal to that
  value, and likewise for a non-empty subcategory value. (An empty value is taken as no
  value: \<^verbatim>\<open>if category:\<close>.)
\<close>

theorem nonempty_category_filter_is_exact:
  assumes "handle E C db (GetProducts q c s) = (Items xs, db')" and "x \<in> set xs"
  shows "(\<forall>v. c = Some v \<and> v \<noteq> [] \<longrightarrow> map_of x ''category'' = Some (VStr v)) \<and>
         (\<forall>v. s = Some v \<and> v \<noteq> [] \<longrightarrow> map_of x ''subcategory'' = Some (VStr v))"
proof -
  from list_products_Items[OF assms(1)] obtain ds where
    g: "get_documents E (op_fault C) db' ''product'' (product_filter q c s) None = Inr ds"
    and xs: "xs = map stringify_id ds"
    by blast
  from assms(2) xs obtain d where d: "d \<in> set ds" and x: "x = stringify_id d"
    by auto
  have cat: "map_of x ''category'' = Some (VStr v)" if "c = Some v" "v \<noteq> []" for v
  proof -
    from that have "Field ''category'' (Eq (VStr v)) \<in> set (product_filter q c s)"
      by (simp add: product_filter_def truthy_def)
    from get_documents_holds[OF g d this] show ?thesis
      by (simp add: criterion_holds_def field_holds_def x stringify_id_def)
  qed
  have sub: "map_of x ''subcategory'' = Some (VStr v)" if "s = Some v" "v \<noteq> []" for v
  proof -
    from that have "Field ''subcategory'' (Eq (VStr v)) \<in> set (product_filter q c s)"
      by (simp add: product_filter_def truthy_def)
    from get_documents_holds[OF g d this] show ?thesis
      by (simp add: criterion_holds_def field_holds_def x stringify_id_def)
  qed
  from cat sub show ?thesis by blast
qed

theorem nonempty_category_filter_is_exact_witness:
  "handle sample_env sample_ctx (Some small_db)
     (GetProducts None (Some ''Ayurvedic Products'') (Some ''Oils'')) =
   (Items [stringify_id neem_oil], Some small_db) \<and>
   stringify_id neem_oil \<in> set [stringify_id neem_oil] \<and>
   map_of (stringify_id neem_oil) ''category'' = Some (VStr ''Ayurvedic Products'') \<and>
   map_of (stringify_id neem_oil) ''subcategory'' = Some (VStr ''Oils'')"
proof -
  have m: "stringify_id neem_oil \<in> set [stringify_id neem_oil]"
    by simp
  show ?thesis
    using get_ayurvedic_oils m nonempty_category_filter_is_exact [OF get_ayurvedic_oils m]
    by simp
qed

text \<open>
  Claim C8, as stated, fails at the empty string: \<^verbatim>\<open>GET /api/products?category=\<close>
  supplies the value \<^verbatim>\<open>""\<close>, the handler adds no criterion for it, and the product
  of category ``Ayurvedic Products'' is returned.
\<close>

theorem empty_category_is_ignored:
  "handle sample_env sample_ctx (Some small_db) (GetProducts None (Some '''') None) =
     (Items [stringify_id neem_oil], Some small_db) \<and>
   map_of (stringify_id neem_oil) ''category'' = Some (VStr ''Ayurvedic Products'') \<and>
   VStr ''Ayurvedic Products'' \<noteq> VStr ''''"
  by (simp add: list_products_def ensure_seed_data_nonempty[OF small_db_nonempty]
        query_products_def get_documents_def product_filter_def truthy_def matches_def
        cap_def small_db_products sample_ctx_def stringify_id_def neem_oil_def samples_def)

section \<open>Free-text search\<close>

lemma match_here_prefix:
  "dot \<notin> set p \<Longrightarrow> match_here p s = prefix (map lower p) (map lower s)"
proof (induction p arbitrary: s)
  case Nil
  then show ?case by simp
next
  case (Cons c p)
  then show ?case by (cases s) (auto simp: char_matches_def)
qed

lemma search_sublist:
  assumes "dot \<notin> set p"
  shows "search p s = sublist (map lower p) (map lower s)"
proof (induction s)
  case Nil
  show ?case by (simp add: match_here_prefix[OF assms])
next
  case (Cons x s)
  then show ?case
    by (simp add: match_here_prefix[OF assms] sublist_Cons_right)
qed

lemma plain_evaluated: "plain q \<Longrightarrow> evaluated q ''i'' \<and> dot \<notin> set q"
  by (auto simp: plain_def evaluated_def list_all_iff)

lemma regex_match_plain:
  "plain q \<Longrightarrow> regex_match E q ''i'' s = Inr (contains_ci q s)"
  by (simp add: regex_match_def plain_evaluated search_sublist contains_ci_def)

lemma field_holds_plain:
  "plain q \<Longrightarrow> field_holds E d (k, Regex q ''i'') = Inr (field_contains q d k)"
  by (auto simp: field_holds_def field_contains_def regex_match_plain
      split: option.splits val.splits)

lemma matches_text:
  assumes "plain q" and "q \<noteq> []"
  shows "matches E (product_filter (Some q) None None) d = Inr (text_matches q d)"
  using assms
  by (simp add: matches_def product_filter_def truthy_def criterion_holds_def
        field_holds_plain text_matches_def)

lemma plain_neem: "plain ''neem''"
  by code_simp

lemma contains_ci_accented:
  "plain (CHR 0xE9 # ''lixir'') \<and> contains_ci (CHR 0xE9 # ''lixir'') (CHR 0xC9 # ''lixir'') \<and>
   search (CHR 0xE9 # ''lixir'') (CHR 0xC9 # ''lixir'')"
  by code_simp

lemma text_matches_neem: "text_matches ''neem'' neem_oil"
  by (simp add: text_matches_def field_contains_def neem_title contains_ci_def)
     code_simp

text \<open>
  Claim C2, as amended. For every non-empty query string \<open>q\<close> without a character
  that is special in a regular expression, \<^verbatim>\<open>GET /api/products\<close> with \<open>q\<close> alone
  returns, when its query meets no fault, exactly the products (of the collection as
  seeding left it) whose title or description contains \<open>q\<close> as a case-insensitive
  substring; for instance ``neem'' finds ``Neem Herbal Oil''.
\<close>

theorem plain_query_is_substring_search:
  assumes "plain q" and "q \<noteq> []" and "op_fault C = None"
    and "snd (ensure_seed_data E (seed_faults C) db) = Some d1"
  shows "fst (handle E C db (GetProducts (Some q) None None)) =
           Items (map stringify_id (filter (text_matches q) (coll d1 ''product'')))"
proof -
  from assms(4) have e: "ensure_seed_data E (seed_faults C) db = (None, Some d1)"
    using ensure_seed_data_result[of E "seed_faults C" db] by auto
  have "filter_m (matches E (product_filter (Some q) None None)) (coll d1 ''product'') =
          Inr (filter (text_matches q) (coll d1 ''product''))"
    by (rule filter_m_exact) (rule matches_text[OF assms(1,2)])
  then show ?thesis
    by (simp add: list_products_def e query_products_def get_documents_def assms(3) cap_def)
qed

theorem plain_query_is_substring_search_witness:
  "plain ''neem'' \<and> ''neem'' \<noteq> [] \<and> op_fault sample_ctx = None \<and>
   snd (ensure_seed_data sample_env (seed_faults sample_ctx) (Some small_db)) =
     Some small_db \<and>
   text_matches ''neem'' neem_oil \<and>
   fst (handle sample_env sample_ctx (Some small_db) (GetProducts (Some ''neem'') None None)) =
     Items [stringify_id neem_oil]"
proof -
  have n: "''neem'' \<noteq> []"
    by simp
  have f: "op_fault sample_ctx = None"
    by (simp add: sample_ctx_def)
  have s: "snd (ensure_seed_data sample_env (seed_faults sample_ctx) (Some small_db)) =
     Some small_db"
    by (simp add: ensure_seed_data_nonempty[OF small_db_nonempty])
  show ?thesis
    using plain_neem n f s text_matches_neem plain_query_is_substring_search [OF plain_neem n f s]
    by (simp add: small_db_products)
qed

lemma search_neem: "search ''n.em'' ''Neem Herbal Oil''"
  by code_simp

lemma evaluated_n_em: "evaluated ''n.em'' ''i''"
  by code_simp

lemma regex_match_neem: "regex_match E ''n.em'' ''i'' ''Neem Herbal Oil'' = Inr True"
  by (simp only: regex_match_def evaluated_n_em search_neem if_True)

lemma not_contains_title: "\<not> contains_ci ''n.em'' ''Neem Herbal Oil''"
  by code_simp

lemma not_contains_description:
  "\<not> contains_ci ''n.em'' ''Cold-pressed neem oil for skin and scalp.''"
  by code_simp

text \<open>
  Claim C2, as stated, fails: the query is handed to the store as a regular
  expression. The query ``n.em'' returns the product ``Neem Herbal Oil'', in which the
  dot stands for the first ``e'', although neither its title nor its description
  contains the four characters of the query.
\<close>

theorem query_is_a_regular_expression:
  "handle sample_env sample_ctx (Some small_db) (GetProducts (Some ''n.em'') None None) =
     (Items [stringify_id neem_oil], Some small_db) \<and>
   map_of (body neem_oil) ''title'' = Some (VStr ''Neem Herbal Oil'') \<and>
   map_of (body neem_oil) ''description'' =
     Some (VStr ''Cold-pressed neem oil for skin and scalp.'') \<and>
   \<not> contains_ci ''n.em'' ''Neem Herbal Oil'' \<and>
   \<not> contains_ci ''n.em'' ''Cold-pressed neem oil for skin and scalp.''"
proof -
  have "matches sample_env (product_filter (Some ''n.em'') None None) neem_oil = Inr True"
    by (simp add: matches_def product_filter_def truthy_def criterion_holds_def
          field_holds_def neem_title regex_match_neem)
  then have "handle sample_env sample_ctx (Some small_db)
      (GetProducts (Some ''n.em'') None None) = (Items [stringify_id neem_oil], Some small_db)"
    by (simp add: list_products_def ensure_seed_data_nonempty[OF small_db_nonempty]
          query_products_def get_documents_def cap_def small_db_products sample_ctx_def)
  with neem_title neem_description not_contains_title not_contains_description
  show ?thesis by blast
qed

section \<open>Seeding on access\<close>

lemma working_next: "working fs \<Longrightarrow> next_fault fs = None \<and> working (rest fs)"
  by (cases fs) (simp_all add: working_def next_fault_def rest_def)

lemma create_all_working:
  assumes "working fs"
  shows "\<exists>fs' d'. create_all E c es fs (Some d) = (None, fs', Some d') \<and> working fs' \<and>
           map body (coll d' c) = map body (coll d c) @ map model_dump es \<and>
           (\<forall>c'. c' \<noteq> c \<longrightarrow> coll d' c' = coll d c')"
  using assms
proof (induction es arbitrary: fs d)
  case Nil
  then show ?case by simp
next
  case (Cons e es)
  from working_next[OF Cons.prems] have n: "next_fault fs = None" and w: "working (rest fs)"
    by simp_all
  let ?d1 = "insert_one d c (model_dump e)"
  from Cons.IH[OF w, of ?d1] obtain fs' d' where
    r: "create_all E c es (rest fs) (Some ?d1) = (None, fs', Some d')" and w': "working fs'"
    and b: "map body (coll d' c) = map body (coll ?d1 c) @ map model_dump es"
    and o: "\<forall>c'. c' \<noteq> c \<longrightarrow> coll d' c' = coll ?d1 c'"
    by blast
  have "create_all E c (e # es) fs (Some d) = (None, fs', Some d')"
    by (simp add: n create_document_ok r)
  moreover have "map body (coll d' c) = map body (coll d c) @ map model_dump (e # es)"
    using b by (simp add: coll_insert_one)
  moreover have "\<forall>c'. c' \<noteq> c \<longrightarrow> coll d' c' = coll d c'"
    using o by (simp add: coll_insert_one)
  ultimately show ?case using w' by blast
qed

lemma seed_if_empty_working:
  assumes "working fs"
  shows "\<exists>fs' d'. seed_if_empty E c es fs (Some d) = (None, fs', Some d') \<and> working fs' \<and>
           seeded d d' c es \<and> (\<forall>c'. c' \<noteq> c \<longrightarrow> coll d' c' = coll d c')"
proof -
  from working_next[OF assms] have n: "next_fault fs = None" and w: "working (rest fs)"
    by simp_all
  show ?thesis
  proof (cases "coll d c = []")
    case True
    from create_all_working[OF w, of E c es d] obtain fs' d' where
      "create_all E c es (rest fs) (Some d) = (None, fs', Some d')" "working fs'"
      "map body (coll d' c) = map body (coll d c) @ map model_dump es"
      "\<forall>c'. c' \<noteq> c \<longrightarrow> coll d' c' = coll d c'"
      by blast
    with True show ?thesis
      by (simp add: seed_if_empty_def count_documents_def n seeded_def)
  next
    case False
    with w show ?thesis
      by (simp add: seed_if_empty_def count_documents_def n seeded_def)
  qed
qed

lemma seeded_other:
  assumes "seeded d d1 c es" and "coll d2 c = coll d1 c"
  shows "seeded d d2 c es"
  using assms by (simp add: seeded_def)

lemma seeded_later:
  assumes "coll d1 c = coll d c" and "seeded d1 d2 c es"
  shows "seeded d d2 c es"
  using assms by (simp add: seeded_def)

lemma ensure_seed_data_working:
  assumes "working fs"
  shows "\<exists>d'. ensure_seed_data E fs (Some d) = (None, Some d') \<and>
           seeded d d' ''product'' (map EProduct samples) \<and>
           seeded d d' ''review'' (map EReview sample_reviews) \<and>
           seeded d d' ''blogpost'' (map EBlogPost sample_posts)"
proof -
  from seed_if_empty_working[OF assms, of E "''product''" "map EProduct samples" d]
  obtain fs1 d1 where
    1: "seed_if_empty E ''product'' (map EProduct samples) fs (Some d) = (None, fs1, Some d1)"
    and w1: "working fs1" and s1: "seeded d d1 ''product'' (map EProduct samples)"
    and o1: "\<forall>c'. c' \<noteq> ''product'' \<longrightarrow> coll d1 c' = coll d c'"
    by blast
  from seed_if_empty_working[OF w1, of E "''review''" "map EReview sample_reviews" d1]
  obtain fs2 d2 where
    2: "seed_if_empty E ''review'' (map EReview sample_reviews) fs1 (Some d1) =
          (None, fs2, Some d2)"
    and w2: "working fs2" and s2: "seeded d1 d2 ''review'' (map EReview sample_reviews)"
    and o2: "\<forall>c'. c' \<noteq> ''review'' \<longrightarrow> coll d2 c' = coll d1 c'"
    by blast
  from seed_if_empty_working[OF w2, of E "''blogpost''" "map EBlogPost sample_posts" d2]
  obtain fs3 d3 where
    3: "seed_if_empty E ''blogpost'' (map EBlogPost sample_posts) fs2 (Some d2) =
          (None, fs3, Some d3)"
    and s3: "seeded d2 d3 ''blogpost'' (map EBlogPost sample_posts)"
    and o3: "\<forall>c'. c' \<noteq> ''blogpost'' \<longrightarrow> coll d3 c' = coll d2 c'"
    by blast
  have e: "ensure_seed_data E fs (Some d) = (None, Some d3)"
    by (simp add: ensure_seed_data_def seed_body_def 1 2 3)
  have c1: "coll d3 ''product'' = coll d1 ''product''"
    using o2 o3 by simp
  have c2: "coll d3 ''review'' = coll d2 ''review''" "coll d1 ''review'' = coll d ''review''"
    using o1 o3 by simp_all
  have c3: "coll d2 ''blogpost'' = coll d ''blogpost''"
    using o1 o2 by simp
  have p: "seeded d d3 ''product'' (map EProduct samples)"
    using s1 c1 by (rule seeded_other)
  have r: "seeded d d3 ''review'' (map EReview sample_reviews)"
    using seeded_later[OF c2(2) s2] c2(1) by (rule seeded_other)
  have b: "seeded d d3 ''blogpost'' (map EBlogPost sample_posts)"
    using c3 s3 by (rule seeded_later)
  from e p r b show ?thesis by blast
qed

lemma validate_kamal: "validate_Review (sample_review_in 5) = Inr kamal"
  by (simp add: validate_Review_def sample_review_in_def required_def optional_def
        ge_def le_def kamal_def)

text \<open>
  Claim C4, as amended. When the store works, \<^verbatim>\<open>GET /api/products\<close>,
  \<^verbatim>\<open>GET /api/blog\<close> and the start of the application run the seeding routine, which
  inserts the fixed placeholder documents into each of the product, review and blogpost
  collections that is empty and leaves a populated one as it was; so after such an
  access each of the three collections that was empty holds exactly its placeholders.
\<close>

theorem listing_seeds_empty_collections:
  assumes "working (seed_faults C)"
    and "r = GetProducts q c s \<or> r = GetBlog b"
  shows "\<exists>d'. snd (handle E C (Some d) r) = Some d' \<and>
           on_startup E (seed_faults C) (Some d) = Some d' \<and>
           seeded d d' ''product'' (map EProduct samples) \<and>
           seeded d d' ''review'' (map EReview sample_reviews) \<and>
           seeded d d' ''blogpost'' (map EBlogPost sample_posts)"
proof -
  from ensure_seed_data_working[OF assms(1), of E d] obtain d' where
    e: "ensure_seed_data E (seed_faults C) (Some d) = (None, Some d')"
    and s: "seeded d d' ''product'' (map EProduct samples)"
       "seeded d d' ''review'' (map EReview sample_reviews)"
       "seeded d d' ''blogpost'' (map EBlogPost sample_posts)"
    by blast
  from assms(2) e have "snd (handle E C (Some d) r) = Some d'"
    by (auto simp: list_products_def list_blog_def)
  moreover from e have "on_startup E (seed_faults C) (Some d) = Some d'"
    by (simp add: on_startup_def)
  ultimately show ?thesis using s by blast
qed

theorem listing_seeds_empty_collections_witness:
  "working (seed_faults sample_ctx) \<and>
   (\<exists>d'. snd (handle sample_env sample_ctx (Some empty_db) (GetProducts None None None)) =
            Some d' \<and>
      on_startup sample_env (seed_faults sample_ctx) (Some empty_db) = Some d' \<and>
      map body (coll d' ''product'') = map model_dump (map EProduct samples) \<and>
      map body (coll d' ''review'') = map model_dump (map EReview sample_reviews) \<and>
      map body (coll d' ''blogpost'') = map model_dump (map EBlogPost sample_posts))"
proof -
  have w: "working (seed_faults sample_ctx)"
    by (simp add: working_def sample_ctx_def)
  have r: "GetProducts None None None = GetProducts None None None \<or>
      GetProducts None None None = GetBlog None"
    by simp
  show ?thesis
    using w listing_seeds_empty_collections [OF w r, of sample_env empty_db]
    by (simp add: seeded_def coll_empty_db)
qed

text \<open>
  Claim C4, as stated, fails: not every access seeds. On an empty database with a
  working store, \<^verbatim>\<open>GET /api/reviews\<close> returns no reviews and inserts nothing, and
  \<^verbatim>\<open>POST /api/reviews\<close> stores the submitted review only, so that the review
  collection holds one document that is none of the placeholders.
\<close>

theorem access_without_seeding:
  "coll empty_db ''review'' = [] \<and>
   handle sample_env sample_ctx (Some empty_db) (GetReviews None) =
     (Items [], Some empty_db) \<and>
   handle sample_env sample_ctx (Some empty_db) (PostReviews (sample_review_in 5)) =
     (Created (str_oid 0), Some (insert_one empty_db ''review'' (model_dump (EReview kamal)))) \<and>
   map body (coll (insert_one empty_db ''review'' (model_dump (EReview kamal))) ''review'') =
     [model_dump (EReview kamal)] \<and>
   [model_dump (EReview kamal)] \<noteq> map model_dump (map EReview sample_reviews)"
proof -
  have 1: "handle sample_env sample_ctx (Some empty_db) (GetReviews None) =
     (Items [], Some empty_db)"
    by (simp add: get_reviews_def get_documents_def sample_ctx_def coll_empty_db cap_def)
  have 2: "handle sample_env sample_ctx (Some empty_db) (PostReviews (sample_review_in 5)) =
     (Created (str_oid 0), Some (insert_one empty_db ''review'' (model_dump (EReview kamal))))"
    by (simp add: validate_kamal add_review_def sample_ctx_def create_document_ok
          next_oid_empty_db)
  have 3: "map body (coll (insert_one empty_db ''review'' (model_dump (EReview kamal)))
      ''review'') = [model_dump (EReview kamal)]"
    by (simp add: coll_insert_one coll_empty_db)
  have 4: "[model_dump (EReview kamal)] \<noteq> map model_dump (map EReview sample_reviews)"
    by (simp add: sample_reviews_def)
  from 1 2 3 4 coll_empty_db show ?thesis by blast
qed

end
